theory Spec2Isabelle
  imports Complex_Main "HOL-Library.Word" "HOL-Library.Char_ord" "HOL-Library.List_Lexorder"
    "HOL-Library.Monad_Syntax" "HOL-Library.AList"
begin

unbundle bit_operations_syntax

section \<open>The WOD generator \<^verbatim>\<open>scripts/generate_wod.js\<close>\<close>

text \<open>
  The embedding follows the script function by function and keeps its names. What the
  script leaves to the language is written out:
  \<^item> A string is a list of 8-bit characters. \<^verbatim>\<open>trim\<close> removes the ASCII white space
    (code units 9 to 13 and 32) and \<^verbatim>\<open>toLowerCase\<close> maps \<^verbatim>\<open>A-Z\<close> to \<^verbatim>\<open>a-z\<close>; the model
    is exact on ASCII text.
  \<^item> The raw profile is untyped JSON (\<open>json\<close>); a JSON number is an integer that the
    language prints in plain decimal.
  \<^item> Library movements and history sessions are records with the fields of the data model
    (text and lists of text); on such values every \<^verbatim>\<open>typeof\<close> and \<^verbatim>\<open>Array.isArray\<close> test
    of the script succeeds, and an absent text field is the empty text, which
    \<^verbatim>\<open>x || default\<close> treats like an absent one.
  \<^item> A \<^verbatim>\<open>Set\<close> is the list of its elements in insertion order, a \<^verbatim>\<open>Map\<close> an association
    list in insertion order.
  \<^item> A score is a double-precision number, kept as the rational number it denotes; every
    addition, subtraction and multiplication of the script rounds as the language does
    (\<open>double\<close>).
  \<^item> The clock is read once per run, by \<^verbatim>\<open>new Date()\<close> in \<^verbatim>\<open>todayOrdinalDay\<close>; the
    \<^verbatim>\<open>Date\<close> that it returns is the parameter \<open>now\<close>.
\<close>

subsection \<open>Strings\<close>

definition isWhiteSpace :: "char \<Rightarrow> bool" where
  "isWhiteSpace c = (of_char c \<in> {9::nat, 10, 11, 12, 13, 32})"

definition trim :: "string \<Rightarrow> string" where
  "trim s = rev (dropWhile isWhiteSpace (rev (dropWhile isWhiteSpace s)))"

definition lowerChar :: "char \<Rightarrow> char" where
  "lowerChar c = (if 65 \<le> (of_char c :: nat) \<and> (of_char c :: nat) \<le> 90
                  then char_of (of_char c + (32::nat)) else c)"

definition toLowerCase :: "string \<Rightarrow> string" where
  "toLowerCase s = map lowerChar s"

definition startsWith :: "string \<Rightarrow> string \<Rightarrow> bool" where
  "startsWith s sub = (take (length sub) s = sub)"

text \<open>\<^verbatim>\<open>s.includes(sub)\<close>: \<open>sub\<close> occurs in \<open>s\<close>.\<close>

fun str_includes :: "string \<Rightarrow> string \<Rightarrow> bool" where
  "str_includes [] sub = (sub = [])"
| "str_includes (c # cs) sub = (startsWith (c # cs) sub \<or> str_includes cs sub)"

definition digitChar :: "nat \<Rightarrow> char" where
  "digitChar d = char_of (48 + d)"

fun showNat :: "nat \<Rightarrow> string" where
  "showNat n = (if n < 10 then [digitChar n] else showNat (n div 10) @ [digitChar (n mod 10)])"

declare showNat.simps [simp del]

definition showInt :: "int \<Rightarrow> string" where
  "showInt i = (if i < 0 then CHR ''-'' # showNat (nat (- i)) else showNat (nat i))"

text \<open>\<^verbatim>\<open>parts.join(sep)\<close>\<close>

fun join :: "string \<Rightarrow> string list \<Rightarrow> string" where
  "join sep [] = []"
| "join sep [x] = x"
| "join sep (x # y # ys) = x @ sep @ join sep (y # ys)"

subsection \<open>JSON values and the coercions of the language\<close>

datatype json =
    JNull
  | JBool bool
  | JNum int
  | JStr string
  | JArr "json list"
  | JObj "(string \<times> json) list"

text \<open>
  \<^verbatim>\<open>fail(message)\<close> throws \<^verbatim>\<open>Error(message)\<close>; the language itself throws
  \<^verbatim>\<open>TypeError\<close>.
\<close>

datatype error = TypeError | Error string

definition truthy :: "json \<Rightarrow> bool" where
  "truthy v = (case v of
       JNull \<Rightarrow> False
     | JBool b \<Rightarrow> b
     | JNum n \<Rightarrow> n \<noteq> 0
     | JStr s \<Rightarrow> s \<noteq> []
     | JArr xs \<Rightarrow> True
     | JObj kv \<Rightarrow> True)"

text \<open>\<^verbatim>\<open>v || d\<close>, where \<open>None\<close> is \<^verbatim>\<open>undefined\<close>.\<close>

definition jsOr :: "json option \<Rightarrow> json \<Rightarrow> json" where
  "jsOr v d = (case v of None \<Rightarrow> d | Some x \<Rightarrow> if truthy x then x else d)"

text \<open>
  \<^verbatim>\<open>String(v)\<close>. An array joins the texts of its elements with commas, \<^verbatim>\<open>null\<close>
  elements giving the empty text. A parsed object has \<^verbatim>\<open>Object.prototype\<close> as its
  prototype, so its text is \<^verbatim>\<open>[object Object]\<close>, unless it has a key \<^verbatim>\<open>toString\<close> of its
  own: a JSON value is never callable, the conversion then tries \<^verbatim>\<open>valueOf\<close>, which
  returns the object itself, and throws \<^verbatim>\<open>TypeError\<close> (the result \<open>None\<close>).
\<close>

fun ToString :: "json \<Rightarrow> string option" where
  "ToString JNull = Some ''null''"
| "ToString (JBool b) = Some (if b then ''true'' else ''false'')"
| "ToString (JNum n) = Some (showInt n)"
| "ToString (JStr s) = Some s"
| "ToString (JArr xs) =
     map_option (join '','')
       (those (map (\<lambda>x. if x = JNull then Some [] else ToString x) xs))"
| "ToString (JObj kv) =
     (if ''toString'' \<in> set (map fst kv) then None else Some ''[object Object]'')"

definition ToStringU :: "json option \<Rightarrow> string option" where
  "ToStringU v = (case v of None \<Rightarrow> Some ''undefined'' | Some x \<Rightarrow> ToString x)"

definition isDigit :: "char \<Rightarrow> bool" where
  "isDigit c = (48 \<le> (of_char c :: nat) \<and> (of_char c :: nat) \<le> 57)"

definition digitsValue :: "string \<Rightarrow> int" where
  "digitsValue ds = foldl (\<lambda>acc c. 10 * acc + (of_char c - 48)) 0 ds"

text \<open>
  \<^verbatim>\<open>Number.parseInt(text, 10)\<close> followed by \<^verbatim>\<open>Number.isFinite\<close>: leading white space
  and one sign are skipped, then the longest run of digits is read. The result is \<open>None\<close>
  when there is no digit (\<^verbatim>\<open>NaN\<close>) or when the digits round to \<^verbatim>\<open>Infinity\<close>, which
  happens from \<open>INFINITY_FROM\<close> on. A finite result is given exactly; the script only
  clamps it.
\<close>

definition INFINITY_FROM :: int where
  "INFINITY_FROM = 2 ^ 1024 - 2 ^ 970"

definition parseInt :: "string \<Rightarrow> int option" where
  "parseInt s =
     (let t = dropWhile isWhiteSpace s;
          neg = (t \<noteq> [] \<and> hd t = CHR ''-'');
          u = (if t \<noteq> [] \<and> (hd t = CHR ''-'' \<or> hd t = CHR ''+'') then tl t else t);
          ds = takeWhile isDigit u
      in if ds = [] then None
         else if INFINITY_FROM \<le> digitsValue ds then None
         else Some (if neg then - digitsValue ds else digitsValue ds))"

text \<open>The elements of \<open>v\<close> that pass \<^verbatim>\<open>Array.isArray(values)\<close> and \<^verbatim>\<open>typeof value === "string"\<close>.\<close>

definition jsonStrings :: "json \<Rightarrow> string list" where
  "jsonStrings v = (case v of
       JArr xs \<Rightarrow> concat (map (\<lambda>x. case x of JStr s \<Rightarrow> [s] | _ \<Rightarrow> []) xs)
     | _ \<Rightarrow> [])"

text \<open>\<^verbatim>\<open>set.add(x)\<close>\<close>

definition setAdd :: "'a list \<Rightarrow> 'a \<Rightarrow> 'a list" where
  "setAdd xs x = (if x \<in> set xs then xs else xs @ [x])"

definition asLowerSet :: "string list \<Rightarrow> string list" where
  "asLowerSet vals =
     foldl (\<lambda>out v. let normalized = toLowerCase (trim v)
                     in if normalized \<noteq> [] then setAdd out normalized else out) [] vals"

text \<open>\<^verbatim>\<open>Array.from(values).sort()\<close>: texts in the order of their code units.\<close>

definition sortedListFromSet :: "string list \<Rightarrow> string list" where
  "sortedListFromSet vals = sort vals"

subsection \<open>The input normalizer\<close>

datatype goal = Engine | Strength | Skill | Mixed | Power
datatype level = Beginner | Intermediate | Advanced
datatype intensity = Low | Moderate | High
datatype wod = Amrap | ForTime | Emom | Chipper | Interval

fun goal_name :: "goal \<Rightarrow> string" where
  "goal_name Engine = ''engine''"
| "goal_name Strength = ''strength''"
| "goal_name Skill = ''skill''"
| "goal_name Mixed = ''mixed''"
| "goal_name Power = ''power''"

fun level_name :: "level \<Rightarrow> string" where
  "level_name Beginner = ''beginner''"
| "level_name Intermediate = ''intermediate''"
| "level_name Advanced = ''advanced''"

fun intensity_name :: "intensity \<Rightarrow> string" where
  "intensity_name Low = ''low''"
| "intensity_name Moderate = ''moderate''"
| "intensity_name High = ''high''"

fun wod_name :: "wod \<Rightarrow> string" where
  "wod_name Amrap = ''amrap''"
| "wod_name ForTime = ''for_time''"
| "wod_name Emom = ''emom''"
| "wod_name Chipper = ''chipper''"
| "wod_name Interval = ''interval''"

definition GOALS :: "goal list" where
  "GOALS = [Engine, Strength, Skill, Mixed, Power]"

definition LEVELS :: "level list" where
  "LEVELS = [Beginner, Intermediate, Advanced]"

definition INTENSITIES :: "intensity list" where
  "INTENSITIES = [Low, Moderate, High]"

definition WOD_TYPES :: "wod list" where
  "WOD_TYPES = [Amrap, ForTime, Emom, Chipper, Interval]"

text \<open>The member of an enumeration that a text names, if any.\<close>

definition named :: "('a \<Rightarrow> string) \<Rightarrow> 'a list \<Rightarrow> string \<Rightarrow> 'a option" where
  "named nm xs s = find (\<lambda>x. nm x = s) xs"

fun LEVEL_RANK :: "level \<Rightarrow> nat" where
  "LEVEL_RANK Beginner = 0"
| "LEVEL_RANK Intermediate = 1"
| "LEVEL_RANK Advanced = 2"

text \<open>
  The normalized profile. Its enumerated fields hold members of the enumerations, its
  \<^verbatim>\<open>limitations\<close> object is the pair \<open>avoid_patterns\<close>, \<open>avoid_movements\<close>, and
  \<open>other_keys\<close> are the properties of the profile object beside the eight of
  \<^verbatim>\<open>DEFAULT_PROFILE\<close>.
\<close>

record profile =
  goal :: goal
  fitness_level :: level
  session_minutes :: int
  equipment_available :: "string list"
  avoid_patterns :: "string list"
  avoid_movements :: "string list"
  preferred_modalities :: "string list"
  wod_type :: "wod option"
  intensity :: intensity
  other_keys :: "(string \<times> json) list"

definition DEFAULT_PROFILE :: "(string \<times> json) list" where
  "DEFAULT_PROFILE =
     [(''goal'', JStr ''mixed''),
      (''fitness_level'', JStr ''intermediate''),
      (''session_minutes'', JNum 45),
      (''equipment_available'', JArr [JStr ''none'']),
      (''limitations'', JObj [(''avoid_patterns'', JArr []), (''avoid_movements'', JArr [])]),
      (''preferred_modalities'',
         JArr [JStr ''monostructural'', JStr ''gymnastics'', JStr ''weightlifting'',
               JStr ''odd-object'']),
      (''wod_type'', JNull),
      (''intensity'', JStr ''moderate'')]"

definition PROFILE_KEYS :: "string list" where
  "PROFILE_KEYS = [''goal'', ''fitness_level'', ''session_minutes'', ''equipment_available'',
     ''limitations'', ''preferred_modalities'', ''wod_type'', ''intensity'']"

text \<open>
  \<^verbatim>\<open>profile[key] = value\<close> on an object whose prototype is \<^verbatim>\<open>Object.prototype\<close>. The
  key \<^verbatim>\<open>__proto__\<close> is an accessor of the prototype: assigning to it changes the
  prototype of the object (or does nothing, for a value that is neither an object nor
  \<^verbatim>\<open>null\<close>) and creates no property. Each of the eight properties read afterwards is
  a property of the object itself, so the prototype is never consulted.
\<close>

definition assign :: "(string \<times> json) list \<Rightarrow> string \<Rightarrow> json \<Rightarrow> (string \<times> json) list" where
  "assign obj key v = (if key = ''__proto__'' then obj else AList.update key v obj)"

definition getProp :: "(string \<times> json) list \<Rightarrow> string \<Rightarrow> json option" where
  "getProp obj key = map_of obj key"

definition VALID_MODALITIES :: "string list" where
  "VALID_MODALITIES = [''monostructural'', ''gymnastics'', ''weightlifting'', ''odd-object'',
     ''recovery'']"

text \<open>
  \<^verbatim>\<open>mergeProfile(rawProfile)\<close>; \<open>rawProfile\<close> is \<^verbatim>\<open>Object.entries\<close> of the raw record.
  Only the three \<^verbatim>\<open>String(...)\<close> conversions and the one of \<^verbatim>\<open>parseInt\<close> can throw;
  \<open>mergeProfile\<close> makes them in the order of the script and hands the four texts to
  \<open>normalizedProfile\<close>, the rest of the function, with the profile object \<open>obj\<close> as it
  is after the loop over the entries.
\<close>

definition normalizedProfile ::
  "(string \<times> json) list \<Rightarrow> string \<Rightarrow> string \<Rightarrow> string \<Rightarrow> string \<Rightarrow> profile" where
  "normalizedProfile obj levelText goalText intensityText minutesText =
     (let p = getProp obj;
          sessionMinutes = (case parseInt minutesText of Some n \<Rightarrow> n | None \<Rightarrow> 45);
          equipmentSet = setAdd
            (asLowerSet (jsonStrings (jsOr (p ''equipment_available'') (JArr [JStr ''none'']))))
            ''none'';
          limitations = (case p ''limitations'' of Some (JObj kv) \<Rightarrow> kv | _ \<Rightarrow> []);
          preferred = asLowerSet (jsonStrings (jsOr (p ''preferred_modalities'') (JArr [])));
          preferredModalities =
            sortedListFromSet (filter (\<lambda>md. md \<in> set VALID_MODALITIES) preferred)
      in \<lparr>
        goal = (case named goal_name GOALS (toLowerCase (trim goalText)) of
                  Some g \<Rightarrow> g | None \<Rightarrow> Mixed),
        fitness_level = (case named level_name LEVELS (toLowerCase (trim levelText)) of
                  Some l \<Rightarrow> l | None \<Rightarrow> Intermediate),
        session_minutes = max 20 (min 120 sessionMinutes),
        equipment_available = sortedListFromSet equipmentSet,
        avoid_patterns = sortedListFromSet (asLowerSet (jsonStrings
           (jsOr (getProp limitations ''avoid_patterns'') (JArr [])))),
        avoid_movements = sortedListFromSet (asLowerSet (jsonStrings
           (jsOr (getProp limitations ''avoid_movements'') (JArr [])))),
        preferred_modalities =
          (if length preferredModalities > 0 then preferredModalities
           else [''monostructural'', ''gymnastics'', ''weightlifting'', ''odd-object'']),
        wod_type = (case p ''wod_type'' of
             Some (JStr s) \<Rightarrow> named wod_name WOD_TYPES (toLowerCase (trim s))
           | _ \<Rightarrow> None),
        intensity = (case named intensity_name INTENSITIES
                          (toLowerCase (trim intensityText)) of
                  Some i \<Rightarrow> i | None \<Rightarrow> Moderate),
        other_keys = filter (\<lambda>(key, v). key \<notin> set PROFILE_KEYS) obj \<rparr>)"

definition mergeProfile :: "(string \<times> json) list \<Rightarrow> error + profile" where
  "mergeProfile rawProfile =
     (let obj = fold (\<lambda>(key, v) acc. assign acc key v) rawProfile DEFAULT_PROFILE;
          p = getProp obj in
      case
        do {
          levelText \<leftarrow> ToString (jsOr (p ''fitness_level'') (JStr ''intermediate''));
          goalText \<leftarrow> ToString (jsOr (p ''goal'') (JStr ''mixed''));
          intensityText \<leftarrow> ToString (jsOr (p ''intensity'') (JStr ''moderate''));
          minutesText \<leftarrow> ToStringU (p ''session_minutes'');
          Some (normalizedProfile obj levelText goalText intensityText minutesText)
        }
      of None \<Rightarrow> Inl TypeError | Some r \<Rightarrow> Inr r)"

subsection \<open>Calendar dates\<close>

text \<open>
  \<^verbatim>\<open>parseIsoDate\<close> accepts what \<^verbatim>\<open>/^(\d{4})-(\d{2})-(\d{2})$/\<close> matches after
  trimming and what survives the round trip through \<^verbatim>\<open>Date.UTC(year, month - 1, day)\<close>.
  \<^verbatim>\<open>Date.UTC\<close> carries a month or day out of range into the neighbouring month or year and
  reads a year from 0 to 99 as 1900 plus that year, so the round trip succeeds exactly for
  a year from 100 on, a month from 1 to 12 and a day of that month. \<open>utcDay\<close> is the day
  number \<^verbatim>\<open>getTime() / 86400000\<close> of such a date, counted from 1970-01-01.
\<close>

definition isLeapYear :: "int \<Rightarrow> bool" where
  "isLeapYear y = (y mod 4 = 0 \<and> (y mod 100 \<noteq> 0 \<or> y mod 400 = 0))"

definition daysInMonth :: "int \<Rightarrow> int \<Rightarrow> int" where
  "daysInMonth y m =
     (if m = 2 then (if isLeapYear y then 29 else 28)
      else if m \<in> {4, 6, 9, 11} then 30 else 31)"

definition dayFromYear :: "int \<Rightarrow> int" where
  "dayFromYear y =
     365 * (y - 1970) + (y - 1969) div 4 - (y - 1901) div 100 + (y - 1601) div 400"

definition utcDay :: "int \<Rightarrow> int \<Rightarrow> int \<Rightarrow> int" where
  "utcDay y m d = dayFromYear y + sum_list (map (daysInMonth y) [1..m - 1]) + (d - 1)"

definition matchIsoDate :: "string \<Rightarrow> (int \<times> int \<times> int) option" where
  "matchIsoDate s =
     (if length s = 10 \<and> list_all isDigit (take 4 s) \<and> s ! 4 = CHR ''-''
         \<and> list_all isDigit (take 2 (drop 5 s)) \<and> s ! 7 = CHR ''-''
         \<and> list_all isDigit (drop 8 s)
      then Some (digitsValue (take 4 s), digitsValue (take 2 (drop 5 s)), digitsValue (drop 8 s))
      else None)"

definition parseIsoDate :: "string \<Rightarrow> int option" where
  "parseIsoDate v =
     (case matchIsoDate (trim v) of
        None \<Rightarrow> None
      | Some (year, month, day) \<Rightarrow>
          if 100 \<le> year \<and> 1 \<le> month \<and> month \<le> 12 \<and> 1 \<le> day \<and> day \<le> daysInMonth year month
          then Some (utcDay year month day) else None)"

text \<open>
  A \<^verbatim>\<open>Date\<close> as its getters show it: the calendar date and the time of day in the local
  time zone. \<^verbatim>\<open>Date.UTC(year, month, day)\<close> reads a year from 0 to 99 as 1900 plus that
  year, carries a month outside 0 to 11 into the year and counts the day from the first of
  the month; it returns milliseconds. \<^verbatim>\<open>todayOrdinalDay\<close> reads the three date getters of
  \<^verbatim>\<open>new Date()\<close> and nothing else.
\<close>

record jsDate =
  getFullYear :: int
  getMonth :: int
  getDate :: int
  getHours :: int
  getMinutes :: int
  getSeconds :: int
  getMilliseconds :: int

definition dateUTC :: "int \<Rightarrow> int \<Rightarrow> int \<Rightarrow> int" where
  "dateUTC year month day =
     (let yr = (if 0 \<le> year \<and> year \<le> 99 then 1900 + year else year)
      in 86400000 * utcDay (yr + month div 12) (month mod 12 + 1) day)"

definition todayOrdinalDay :: "jsDate \<Rightarrow> int" where
  "todayOrdinalDay now =
     dateUTC (getFullYear now) (getMonth now) (getDate now) div 86400000"

subsection \<open>Movements, sessions and the fatigue analyzer\<close>

text \<open>A library movement and a history session, with the fields of the data model.\<close>

record movement =
  name :: string
  modality :: string
  patterns :: "string list"
  difficulty :: string
  effects :: "string list"
  equipment :: "string list"
  variations :: "string list"

record session =
  session_date :: "string option"
  session_movements :: "string list"
  session_patterns :: "string list"

text \<open>
  \<^verbatim>\<open>String(movement.name || "").trim().toLowerCase()\<close> and the same for the modality.
\<close>

definition normName :: "movement \<Rightarrow> string" where
  "normName movement = toLowerCase (trim (name movement))"

definition normModality :: "movement \<Rightarrow> string" where
  "normModality movement = toLowerCase (trim (modality movement))"

definition movementMap :: "movement list \<Rightarrow> (string \<times> movement) list" where
  "movementMap movements =
     fold (\<lambda>movement out.
             if trim (name movement) \<noteq> []
             then AList.update (toLowerCase (trim (name movement))) movement out
             else out) movements []"

text \<open>\<^verbatim>\<open>counter.set(key, (counter.get(key) || 0) + 1)\<close> and \<^verbatim>\<open>counter.get(key) || 0\<close>\<close>

fun incrementCounter :: "(string \<times> nat) list \<Rightarrow> string \<Rightarrow> (string \<times> nat) list" where
  "incrementCounter [] key = [(key, 1)]"
| "incrementCounter ((k, c) # rest) key =
     (if k = key then (k, c + 1) # rest else (k, c) # incrementCounter rest key)"

definition counterGet :: "(string \<times> nat) list \<Rightarrow> string \<Rightarrow> nat" where
  "counterGet counter key = (case map_of counter key of Some c \<Rightarrow> c | None \<Rightarrow> 0)"

definition sessionInLookback :: "session \<Rightarrow> int \<Rightarrow> bool" where
  "sessionInLookback s cutoffOrdinalDay =
     (case parseIsoDate (case session_date s of Some d \<Rightarrow> d | None \<Rightarrow> []) of
        None \<Rightarrow> True
      | Some ordinalDay \<Rightarrow> ordinalDay \<ge> cutoffOrdinalDay)"

text \<open>
  The two pattern loops of \<^verbatim>\<open>recentContext\<close> (over \<^verbatim>\<open>found.patterns\<close> and over
  \<^verbatim>\<open>session.patterns\<close>) have the same body, \<open>tallyPatterns\<close>. \<open>addMovementName\<close> is the
  body of the loop over \<^verbatim>\<open>session.movements\<close>, \<open>addSession\<close> the body of the loop over the
  history; the state is the pair (\<^verbatim>\<open>recentMovements\<close>, \<^verbatim>\<open>patternCounter\<close>).
\<close>

definition tallyPatterns :: "string list \<Rightarrow> (string \<times> nat) list \<Rightarrow> (string \<times> nat) list" where
  "tallyPatterns pats counter =
     fold (\<lambda>pattern c. if trim pattern = [] then c
                         else incrementCounter c (toLowerCase (trim pattern))) pats counter"

definition addMovementName ::
  "(string \<times> movement) list \<Rightarrow> string \<Rightarrow> string list \<times> (string \<times> nat) list
     \<Rightarrow> string list \<times> (string \<times> nat) list" where
  "addMovementName byName movementName st =
     (let normalizedName = toLowerCase (trim movementName) in
      if normalizedName = [] then st
      else (setAdd (fst st) normalizedName,
            case map_of byName normalizedName of
              Some found \<Rightarrow> tallyPatterns (patterns found) (snd st)
            | None \<Rightarrow> snd st))"

definition addSession ::
  "int \<Rightarrow> (string \<times> movement) list \<Rightarrow> session \<Rightarrow> string list \<times> (string \<times> nat) list
     \<Rightarrow> string list \<times> (string \<times> nat) list" where
  "addSession cutoffOrdinalDay byName s st =
     (if \<not> sessionInLookback s cutoffOrdinalDay then st
      else let st' = fold (addMovementName byName) (session_movements s) st
           in (fst st', tallyPatterns (session_patterns s) (snd st')))"

definition recentContext ::
  "jsDate \<Rightarrow> session list \<Rightarrow> (string \<times> movement) list \<Rightarrow> int
     \<Rightarrow> string list \<times> (string \<times> nat) list" where
  "recentContext now history byName lookbackDays =
     (let cutoffOrdinalDay = todayOrdinalDay now - lookbackDays
      in fold (addSession cutoffOrdinalDay byName) history ([], []))"

subsection \<open>Eligibility and scoring\<close>

text \<open>
  \<^verbatim>\<open>LEVEL_RANK[String(movement.difficulty || "intermediate").toLowerCase()] ?? 1\<close>.
  \<^verbatim>\<open>LEVEL_RANK\<close> is an object literal, so the lookup also finds what the object inherits
  from \<^verbatim>\<open>Object.prototype\<close>. Of the inherited names only \<^verbatim>\<open>constructor\<close> and
  \<^verbatim>\<open>__proto__\<close> are lower-case; for them the lookup yields a function or an object
  (\<open>NotARank\<close>), the default 1 is not taken, and every comparison with a number is false.
\<close>

datatype rank = Rank nat | NotARank

definition difficultyRank :: "string \<Rightarrow> rank" where
  "difficultyRank key =
     (case named level_name LEVELS key of
        Some l \<Rightarrow> Rank (LEVEL_RANK l)
      | None \<Rightarrow> if key = ''constructor'' \<or> key = ''__proto__'' then NotARank else Rank 1)"

definition movementLevel :: "movement \<Rightarrow> rank" where
  "movementLevel movement =
     difficultyRank (toLowerCase (if difficulty movement = [] then ''intermediate''
                                  else difficulty movement))"

fun rankGreater :: "rank \<Rightarrow> nat \<Rightarrow> bool" where
  "rankGreater (Rank a) b = (a > b)"
| "rankGreater NotARank b = False"

fun rankLess :: "rank \<Rightarrow> nat \<Rightarrow> bool" where
  "rankLess (Rank a) b = (a < b)"
| "rankLess NotARank b = False"

definition canDoMovement :: "movement \<Rightarrow> profile \<Rightarrow> string list \<Rightarrow> bool" where
  "canDoMovement movement profile recentMovements =
     (let levelRank = LEVEL_RANK (fitness_level profile);
          allowSkillReach = (goal profile = Skill)
      in
      if rankGreater (movementLevel movement) (levelRank + (if allowSkillReach then 1 else 0))
      then False
      else
        let equipmentNeeded = asLowerSet (equipment movement);
            requiredEquipment =
              filter (\<lambda>item. item \<notin> set [''none'', ''bodyweight'']) equipmentNeeded;
            availableEquipment = asLowerSet (equipment_available profile)
        in
        if list_ex (\<lambda>item. item \<notin> set availableEquipment) requiredEquipment then False
        else if normName movement \<in> set (avoid_movements profile) then False
        else if list_ex (\<lambda>pattern. pattern \<in> set (avoid_patterns profile))
                  (asLowerSet (patterns movement)) then False
        else if goal profile = Skill \<and> normName movement \<in> set recentMovements then False
        else True)"

text \<open>
  Double-precision arithmetic. A finite double is the rational number it denotes, and
  \<open>double x\<close> is the double nearest to \<open>x\<close>, the one with the even significand when two
  are equally near: with \<open>2 ^ e \<le> \<bar>x\<bar> < 2 ^ (e + 1)\<close> the doubles around \<open>x\<close> are the
  multiples of \<open>2 ^ (e - 52)\<close>. The exponent is not bounded here; the numbers of the script
  stay far inside the range of a double. \<open>dadd\<close>, \<open>dsub\<close> and \<open>dmul\<close> are \<^verbatim>\<open>+\<close>,
  \<^verbatim>\<open>-\<close> and \<^verbatim>\<open>*\<close> on doubles, and a decimal literal such as \<^verbatim>\<open>1.3\<close> is
  \<open>double (13 / 10)\<close>.
\<close>

function bitLength :: "int \<Rightarrow> int" where
  "bitLength n = (if n \<le> 0 then 0 else 1 + bitLength (n div 2))"
  by auto
termination
  by (relation "measure nat") auto

declare bitLength.simps [simp del]

definition pow2 :: "int \<Rightarrow> rat" where
  "pow2 k = (if 0 \<le> k then 2 ^ nat k else 1 / 2 ^ nat (- k))"

definition exponent :: "rat \<Rightarrow> int" where
  "exponent x =
     (case quotient_of \<bar>x\<bar> of (p, q) \<Rightarrow>
        let d = bitLength p - bitLength q
        in if pow2 d \<le> \<bar>x\<bar> then d else d - 1)"

definition roundTiesToEven :: "rat \<Rightarrow> int" where
  "roundTiesToEven x =
     (let f = \<lfloor>x\<rfloor>; r = x - of_int f
      in if r < 1 / 2 then f
         else if 1 / 2 < r then f + 1
         else if f mod 2 = 0 then f else f + 1)"

definition double :: "rat \<Rightarrow> rat" where
  "double x =
     (if x = 0 then 0
      else let ulp = pow2 (exponent x - 52)
           in of_int (roundTiesToEven (x / ulp)) * ulp)"

definition dadd :: "rat \<Rightarrow> rat \<Rightarrow> rat" where
  "dadd a b = double (a + b)"

definition dsub :: "rat \<Rightarrow> rat \<Rightarrow> rat" where
  "dsub a b = double (a - b)"

definition dmul :: "rat \<Rightarrow> rat \<Rightarrow> rat" where
  "dmul a b = double (a * b)"

text \<open>
  \<^verbatim>\<open>scoreMovement\<close>, statement by statement: \<open>s1\<close> to \<open>s8\<close> are the values of
  \<^verbatim>\<open>score\<close> after each of them, and the loop over the patterns subtracts
  \<^verbatim>\<open>1.3 * (patternCounter.get(pattern) || 0)\<close> in the order of the set. A count is a whole
  number below \<open>2 ^ 53\<close> and so a double.
\<close>

definition scoreMovement ::
  "movement \<Rightarrow> profile \<Rightarrow> string list \<Rightarrow> (string \<times> nat) list \<Rightarrow> rat" where
  "scoreMovement movement profile recentMovements patternCounter =
     (let nm = normName movement;
          md = normModality movement;
          effs = asLowerSet (effects movement);
          pats = asLowerSet (patterns movement);
          s1 = (if goal_name (goal profile) \<in> set effs then dadd 0 3 else 0);
          s2 = (if goal profile = Mixed \<and> length effs \<ge> 2 then dadd s1 1 else s1);
          s3 = (if md \<in> set (preferred_modalities profile) then dadd s2 2 else s2);
          s4 = (if nm \<in> set recentMovements then dsub s3 4 else s3);
          s5 = fold (\<lambda>pattern score.
                       dsub score (dmul (double (13 / 10))
                                        (of_nat (counterGet patternCounter pattern))))
                 pats s4;
          levelRank = LEVEL_RANK (fitness_level profile);
          s6 = (if movementLevel movement = Rank levelRank then dadd s5 1
                else if rankLess (movementLevel movement) levelRank
                then dadd s5 (double (4 / 10)) else s5);
          s7 = (if intensity profile = Low
                then (if ''power'' \<in> set effs \<or> md = ''weightlifting''
                      then dsub s6 1 else s6)
                else if intensity profile = High
                then (if ''power'' \<in> set effs \<or> ''engine'' \<in> set effs
                      then dadd s6 1 else s6)
                else s6);
          s8 = (if md = ''recovery'' then dsub s7 (double (25 / 10)) else s7)
      in s8)"

text \<open>
  \<^verbatim>\<open>ranked.sort((left, right) => right[1] - left[1])\<close>: the difference of two doubles
  has the sign of their comparison, \<^verbatim>\<open>Array.prototype.sort\<close> is stable, and the stable
  arrangement of a list by a key is unique; \<open>sort_key\<close> computes it by insertion.
\<close>

definition rankCandidates ::
  "movement list \<Rightarrow> profile \<Rightarrow> string list \<Rightarrow> (string \<times> nat) list
     \<Rightarrow> (movement \<times> rat) list" where
  "rankCandidates movements profile recentMovements patternCounter =
     sort_key (\<lambda>entry. - snd entry)
       (map (\<lambda>movement. (movement, scoreMovement movement profile recentMovements patternCounter))
          (filter (\<lambda>movement. canDoMovement movement profile recentMovements) movements))"

subsection \<open>The seeded random source\<close>

text \<open>
  \<^verbatim>\<open>SeededRng\<close>. The constructor takes the seed modulo \<open>2 ^ 32\<close>
  (\<^verbatim>\<open>Number(seed) >>> 0\<close>). \<^verbatim>\<open>next()\<close> adds the increment to the state as a number
  and reads the sum with 32-bit operations only (\<^verbatim>\<open>>>>\<close>, \<^verbatim>\<open>^\<close>, \<^verbatim>\<open>|\<close>,
  \<^verbatim>\<open>Math.imul\<close>), so the state is kept modulo \<open>2 ^ 32\<close>; this is what the script
  computes as long as its state is below \<open>2 ^ 53\<close>, that is for some millions of calls.
  \<open>rngNext\<close> returns the numerator \<open>u\<close> of the result \<open>u / 2 ^ 32\<close>, and
  \<open>rngIndex u n\<close> is \<^verbatim>\<open>Math.floor(this.next() * n)\<close>, which double precision computes
  exactly for the list lengths that occur.
\<close>

type_synonym rng = "32 word"

definition SeededRng :: "int \<Rightarrow> rng" where
  "SeededRng seed = word_of_int seed"

definition rngNext :: "rng \<Rightarrow> int \<times> rng" where
  "rngNext state =
     (let s = state + 0x6d2b79f5;
          t = (s XOR drop_bit 15 s) * (s OR 1);
          t' = t XOR (t + (t XOR drop_bit 7 t) * (t OR 61))
      in (uint (t' XOR drop_bit 14 t'), s))"

definition rngIndex :: "int \<Rightarrow> nat \<Rightarrow> nat" where
  "rngIndex u n = nat ((u * int n) div 4294967296)"

definition rngChoice :: "'a list \<Rightarrow> rng \<Rightarrow> 'a option \<times> rng" where
  "rngChoice vals state =
     (if vals = [] then (None, state)
      else let r = rngNext state
           in (Some (vals ! rngIndex (fst r) (length vals)), snd r))"

text \<open>
  \<^verbatim>\<open>shuffle\<close>: \<open>shuffleFrom idx\<close> is the loop from \<open>idx\<close> down to 1.
\<close>

fun shuffleFrom :: "nat \<Rightarrow> 'a list \<Rightarrow> rng \<Rightarrow> 'a list \<times> rng" where
  "shuffleFrom 0 vals state = (vals, state)"
| "shuffleFrom (Suc i) vals state =
     (let r = rngNext state;
          pick = rngIndex (fst r) (Suc i + 1)
      in shuffleFrom i (vals[Suc i := vals ! pick, pick := vals ! Suc i]) (snd r))"

definition rngShuffle :: "'a list \<Rightarrow> rng \<Rightarrow> 'a list \<times> rng" where
  "rngShuffle vals state = shuffleFrom (length vals - 1) vals state"

subsection \<open>The pick primitive\<close>

text \<open>
  \<^verbatim>\<open>pickBest(ranked, rng, usedNames, modalities = null, includeRecovery = false)\<close>
  returns the chosen movement with the updated set of used names and random source.
  \<open>pickCandidate\<close> is the body of its loop: true for a movement that none of the three
  \<^verbatim>\<open>continue\<close> tests skips.
\<close>

definition pickCandidate ::
  "string list \<Rightarrow> string list option \<Rightarrow> bool \<Rightarrow> movement \<Rightarrow> bool" where
  "pickCandidate usedNames modalities includeRecovery m =
     (\<not> (\<not> includeRecovery \<and> normModality m = ''recovery'')
      \<and> normName m \<notin> set usedNames
      \<and> (case modalities of None \<Rightarrow> True | Some ms \<Rightarrow> normModality m \<in> set ms))"

definition pickBest ::
  "(movement \<times> rat) list \<Rightarrow> rng \<Rightarrow> string list \<Rightarrow> string list option \<Rightarrow> bool
     \<Rightarrow> movement option \<times> string list \<times> rng" where
  "pickBest ranked state usedNames modalities includeRecovery =
     (let filtered =
            filter (\<lambda>entry. pickCandidate usedNames modalities includeRecovery (fst entry))
              ranked
      in if length filtered = 0 then (None, usedNames, state)
         else
           let top = take (min 8 (length filtered)) filtered
           in case rngChoice top state of
                (Some chosen, state') \<Rightarrow>
                  (Some (fst chosen), setAdd usedNames (normName (fst chosen)), state')
              | (None, state') \<Rightarrow> (None, usedNames, state'))"

subsection \<open>Prescriptions and block lengths\<close>

definition repTarget :: "movement \<Rightarrow> level \<Rightarrow> string" where
  "repTarget movement lvl =
     (let nm = toLowerCase (name movement);
          md = toLowerCase (modality movement);
          df = toLowerCase (if difficulty movement = [] then ''intermediate''
                            else difficulty movement)
      in
      if md = ''monostructural'' then
        (if str_includes nm ''run'' then ''200 m''
         else if str_includes nm ''row'' \<or> str_includes nm ''bike'' \<or> str_includes nm ''ski''
         then ''12/10 cal''
         else if str_includes nm ''double under'' then ''30 reps''
         else if str_includes nm ''jump rope'' then ''60 reps''
         else ''12/10 cal'')
      else if md = ''weightlifting'' \<or> md = ''odd-object'' then
        (if str_includes nm ''carry'' then ''40 m''
         else if df = ''advanced'' then ''6 reps''
         else if lvl = Beginner then ''8 reps''
         else ''10 reps'')
      else if md = ''gymnastics'' then
        (if df = ''advanced'' then ''6 reps''
         else if df = ''intermediate'' then ''10 reps''
         else ''14 reps'')
      else ''45 sec'')"

record blockLengths =
  len_warmup :: nat
  len_strength :: nat
  len_metcon :: nat
  len_cooldown :: nat

definition sessionBlockLengths :: "int \<Rightarrow> blockLengths" where
  "sessionBlockLengths sessionMinutes =
     (if sessionMinutes \<le> 30
      then \<lparr>len_warmup = 6, len_strength = 6, len_metcon = 12, len_cooldown = 4\<rparr>
      else if sessionMinutes \<le> 45
      then \<lparr>len_warmup = 8, len_strength = 10, len_metcon = 18, len_cooldown = 6\<rparr>
      else if sessionMinutes \<le> 60
      then \<lparr>len_warmup = 10, len_strength = 12, len_metcon = 24, len_cooldown = 8\<rparr>
      else \<lparr>len_warmup = 12, len_strength = 15, len_metcon = 30, len_cooldown = 10\<rparr>)"

definition chooseWodType :: "profile \<Rightarrow> rng \<Rightarrow> wod \<times> rng" where
  "chooseWodType profile state =
     (case wod_type profile of
        Some w \<Rightarrow> (w, state)
      | None \<Rightarrow>
          let options =
                (if goal profile = Engine then [Interval, Amrap, ForTime]
                 else if goal profile = Strength \<or> goal profile = Power
                 then [Emom, ForTime, Amrap]
                 else if goal profile = Skill then [Emom, Amrap, Interval]
                 else WOD_TYPES);
              r = rngChoice options state
          in (case fst r of Some w \<Rightarrow> w | None \<Rightarrow> Interval, snd r))"

subsection \<open>The session assembler\<close>

record block =
  duration_min :: nat
  movement_names :: "string list"
  items :: "string list"

record strengthBlock =
  focus :: string
  strength_duration_min :: nat
  strength_movement :: string
  prescription :: string

record metconBlock =
  metcon_type :: wod
  metcon_duration_min :: nat
  metcon_movements :: "string list"
  description :: string

text \<open>
  Each builder takes the set of used names and the random source and returns them
  updated. \<open>pickWarmup\<close> is the inner function of \<^verbatim>\<open>buildWarmup\<close> and
  \<open>warmupCandidate\<close> the body of its loop: true for a movement that none of the five
  \<^verbatim>\<open>continue\<close> tests skips.
\<close>

definition warmupCandidate :: "string list \<Rightarrow> string list \<Rightarrow> movement \<Rightarrow> bool" where
  "warmupCandidate used candidates m =
     (let df = toLowerCase (trim (if difficulty m = [] then ''intermediate''
                                  else difficulty m));
          effs = asLowerSet (effects m)
      in normName m \<notin> set used
       \<and> normModality m \<in> set candidates
       \<and> \<not> ((normModality m = ''weightlifting'' \<or> normModality m = ''odd-object'')
             \<and> df \<noteq> ''beginner'')
       \<and> \<not> (''power'' \<in> set effs \<or> ''mental'' \<in> set effs)
       \<and> \<not> str_includes (normName m) ''burpee'')"

definition pickWarmup ::
  "(movement \<times> rat) list \<Rightarrow> string list \<Rightarrow> rng \<Rightarrow> string list
     \<Rightarrow> movement option \<times> string list \<times> rng" where
  "pickWarmup ranked used state candidates =
     (let warmupFiltered =
            filter (\<lambda>entry. warmupCandidate used candidates (fst entry)) ranked
      in if length warmupFiltered = 0 then pickBest ranked state used (Some candidates) False
         else
           let top = take (min 8 (length warmupFiltered)) warmupFiltered
           in case rngChoice top state of
                (Some chosen, state') \<Rightarrow>
                  (Some (fst chosen), setAdd used (normName (fst chosen)), state')
              | (None, state') \<Rightarrow> (None, used, state'))"

definition buildWarmup ::
  "(movement \<times> rat) list \<Rightarrow> string list \<Rightarrow> rng \<Rightarrow> nat \<Rightarrow> block \<times> string list \<times> rng" where
  "buildWarmup ranked used state minutes =
     (case pickWarmup ranked used state [''monostructural''] of (cyc, used1, state1) \<Rightarrow>
      case pickWarmup ranked used1 state1 [''gymnastics'', ''recovery''] of
        (base1, used2, state2) \<Rightarrow>
      case pickWarmup ranked used2 state2 [''gymnastics'', ''recovery'', ''odd-object''] of
        (base2, used3, state3) \<Rightarrow>
      let cycName = (case cyc of Some m \<Rightarrow> name m | None \<Rightarrow> ''easy cardio'');
          base1Name = (case base1 of Some m \<Rightarrow> name m | None \<Rightarrow> ''air squat'');
          base2Name = (case base2 of Some m \<Rightarrow> name m | None \<Rightarrow> ''plank'')
      in (\<lparr>duration_min = minutes,
           movement_names = [cycName, base1Name, base2Name],
           items = [showNat (max 3 (minutes div 2)) @ '' min easy '' @ cycName,
                    ''2 rounds: 10 '' @ base1Name @ '', 8 '' @ base2Name
                      @ '', 20 sec nasal breathing'']\<rparr>,
          used3, state3))"

definition buildStrengthOrSkillBlock ::
  "(movement \<times> rat) list \<Rightarrow> string list \<Rightarrow> rng \<Rightarrow> profile \<Rightarrow> nat
     \<Rightarrow> strengthBlock option \<times> string list \<times> rng" where
  "buildStrengthOrSkillBlock ranked used state profile minutes =
     (if goal profile = Engine \<and> session_minutes profile \<le> 35 then (None, used, state)
      else
        let focusName = (if goal profile = Skill then ''skill'' else ''strength'');
            modalities = (if goal profile = Skill then [''gymnastics'', ''weightlifting'']
                          else [''weightlifting'', ''odd-object''])
        in case pickBest ranked state used (Some modalities) False of
             (None, used', state') \<Rightarrow> (None, used', state')
           | (Some m, used', state') \<Rightarrow>
               (Some \<lparr>focus = focusName,
                      strength_duration_min = minutes,
                      strength_movement = name m,
                      prescription =
                        (if focusName = ''skill''
                         then ''E2MOM x '' @ showNat (max 8 minutes) @ '': 2-4 quality reps ''
                              @ name m @ '' + technical drill between sets''
                         else if fitness_level profile = Beginner
                         then name m @ '': 5 x 5 @ moderate load (RPE 7), rest 90 sec''
                         else if fitness_level profile = Intermediate
                         then name m @ '': 5 x 3 @ challenging load (RPE 8), rest 2 min''
                         else name m @ '': 6 x 2 heavy quality reps (RPE 8-9), rest 2-3 min'')\<rparr>,
                used', state'))"

text \<open>
  \<^verbatim>\<open>buildMetcon\<close>: \<open>pickGroup\<close> is the body of the loop over the three modality groups,
  \<open>topUp\<close> the \<^verbatim>\<open>while\<close> loop that fills up to the target count, \<open>metconPicks\<close> the
  two loops together, \<open>emomMinutes\<close> the minute count of the EMOM branch
  (\<^verbatim>\<open>Math.max(stationCount * 4, minutes)\<close>, then \<^verbatim>\<open>emomMinutes -= emomMinutes % stationCount\<close>)
  and \<open>metconDescription\<close> the branch on the workout type.
\<close>

definition pickGroup ::
  "(movement \<times> rat) list \<Rightarrow> string list
     \<Rightarrow> movement list \<times> string list \<times> rng \<Rightarrow> movement list \<times> string list \<times> rng" where
  "pickGroup ranked modalityGroup st =
     (case st of (metconMovements, used, state) \<Rightarrow>
        case pickBest ranked state used (Some modalityGroup) False of
          (None, used', state') \<Rightarrow> (metconMovements, used', state')
        | (Some choice, used', state') \<Rightarrow> (metconMovements @ [choice], used', state'))"

function topUp ::
  "(movement \<times> rat) list \<Rightarrow> nat \<Rightarrow> movement list \<times> string list \<times> rng
     \<Rightarrow> movement list \<times> string list \<times> rng" where
  "topUp ranked targetCount (metconMovements, used, state) =
     (if length metconMovements < targetCount
      then (case pickBest ranked state used
                   (Some [''monostructural'', ''gymnastics'', ''weightlifting'', ''odd-object''])
                   False of
              (None, used', state') \<Rightarrow> (metconMovements, used', state')
            | (Some extra, used', state') \<Rightarrow>
                topUp ranked targetCount (metconMovements @ [extra], used', state'))
      else (metconMovements, used, state))"
  by pat_completeness auto
termination
  by (relation "measure (\<lambda>(ranked, targetCount, st). targetCount - length (fst st))") auto

definition metconPicks ::
  "(movement \<times> rat) list \<Rightarrow> string list \<Rightarrow> rng \<Rightarrow> profile
     \<Rightarrow> movement list \<times> string list \<times> rng" where
  "metconPicks ranked used state profile =
     topUp ranked (if session_minutes profile > 45 then 4 else 3)
       (fold (pickGroup ranked)
          [[''monostructural''], [''gymnastics''], [''weightlifting'', ''odd-object'']]
          ([], used, state))"

definition emomMinutes :: "nat \<Rightarrow> nat \<Rightarrow> nat" where
  "emomMinutes stationCount minutes =
     (let m = max (stationCount * 4) minutes in m - m mod stationCount)"

definition metconDescription :: "wod \<Rightarrow> nat \<Rightarrow> string list \<Rightarrow> string" where
  "metconDescription wodType minutes lines =
     (case wodType of
        Amrap \<Rightarrow> showNat minutes @ ''-min AMRAP: '' @ join '' | '' lines
      | ForTime \<Rightarrow>
          showNat (if length lines \<le> 3 then 4 else 3) @ '' rounds for time: ''
            @ join '' | '' lines
      | Emom \<Rightarrow>
          ''EMOM '' @ showNat (emomMinutes (length lines) minutes) @ '' (cycle ''
            @ showNat (length lines) @ '' stations): ''
            @ join '' | ''
                (map (\<lambda>(idx, line). ''Min '' @ showNat (idx + 1) @ '': '' @ line)
                   (zip [0..<length lines] lines))
      | Chipper \<Rightarrow> ''For time chipper: '' @ join '' -> '' lines
      | Interval \<Rightarrow>
          showNat (max 4 (minutes div 3)) @ '' rounds: 2:00 work / 1:00 rest on ''
            @ join '' | '' lines)"

definition buildMetcon ::
  "(movement \<times> rat) list \<Rightarrow> string list \<Rightarrow> rng \<Rightarrow> profile \<Rightarrow> nat
     \<Rightarrow> error + (metconBlock \<times> string list \<times> rng)" where
  "buildMetcon ranked used state profile minutes =
     (case chooseWodType profile state of (wodType, state0) \<Rightarrow>
      case metconPicks ranked used state0 profile of (metconMovements, used', state') \<Rightarrow>
      if length metconMovements = 0
      then Inl (Error ''No eligible movements remain for metcon after constraints.'')
      else
        let lines = map (\<lambda>m. repTarget m (fitness_level profile) @ '' '' @ name m)
                      metconMovements
        in Inr (\<lparr>metcon_type = wodType,
                  metcon_duration_min = minutes,
                  metcon_movements = map name metconMovements,
                  description = metconDescription wodType minutes lines\<rparr>,
                used', state'))"

definition buildCooldown :: "movement list \<Rightarrow> rng \<Rightarrow> nat \<Rightarrow> block \<times> rng" where
  "buildCooldown movements state minutes =
     (let recoveryPool = filter (\<lambda>m. toLowerCase (modality m) = ''recovery'') movements;
          shuffled = rngShuffle recoveryPool state;
          selected = take 2 (fst shuffled)
      in (case selected of
            [a, b] \<Rightarrow>
              \<lparr>duration_min = minutes,
               movement_names = [name a, name b, ''Down-regulation breathing''],
               items = [''2 x 45 sec per side '' @ name a,
                        ''2 x 45 sec per side '' @ name b,
                        ''2 min down-regulation breathing'']\<rparr>
          | _ \<Rightarrow>
              \<lparr>duration_min = minutes,
               movement_names = [''Breathing walk'', ''Hip opener'', ''Thoracic opener''],
               items = [''2 min easy breathing walk'',
                        ''2 x 45 sec per side hip opener'',
                        ''2 x 45 sec thoracic opener'']\<rparr>,
          snd shuffled))"

record scalingNote =
  note_movement :: string
  easier :: string
  harder :: string

definition buildScalingNotes ::
  "string list \<Rightarrow> (string \<times> movement) list \<Rightarrow> scalingNote list" where
  "buildScalingNotes chosenMovements byName =
     concat (map (\<lambda>movementName.
        case map_of byName (toLowerCase movementName) of
          None \<Rightarrow> []
        | Some m \<Rightarrow>
            let vs = filter (\<lambda>variation. trim variation \<noteq> []) (variations m)
            in [\<lparr>note_movement = movementName,
                 easier = (if length vs > 0 then hd vs
                           else ''Reduce reps and use controlled tempo''),
                 harder = (if length vs > 0 then last vs
                           else ''Increase load or reduce rest'')\<rparr>]) chosenMovements)"

definition fatigueSummary :: "(string \<times> nat) list \<Rightarrow> string list" where
  "fatigueSummary patternCounter =
     (if length patternCounter = 0 then []
      else map (\<lambda>(pattern, count). pattern @ '' ('' @ showNat count @ '')'')
             (take 5 (sort_key (\<lambda>entry. - int (snd entry)) patternCounter)))"

record planContext =
  lookback_days :: int
  recent_movements :: "string list"
  recent_fatigue_patterns :: "string list"

record plan =
  plan_seed :: int
  plan_profile :: profile
  plan_context :: planContext
  warmup :: block
  strength_or_skill :: "strengthBlock option"
  metcon :: metconBlock
  cooldown :: block
  scaling :: "scalingNote list"

text \<open>
  \<^verbatim>\<open>buildPlan(profile, history, movements, lookbackDays, seed)\<close>, run when the clock
  shows \<open>now\<close>.
\<close>

definition buildPlan ::
  "jsDate \<Rightarrow> profile \<Rightarrow> session list \<Rightarrow> movement list \<Rightarrow> int \<Rightarrow> int
     \<Rightarrow> error + plan" where
  "buildPlan now profile history movements lookbackDays seed =
     (let state = SeededRng seed;
          byName = movementMap movements;
          ctx = recentContext now history byName lookbackDays;
          recentMovements = fst ctx;
          patternCounter = snd ctx;
          ranked = rankCandidates movements profile recentMovements patternCounter
      in
      if length ranked = 0
      then Inl (Error ''No movements match the current equipment/level/limitations. Relax constraints and retry.'')
      else
        let blocks = sessionBlockLengths (session_minutes profile) in
        case buildWarmup ranked [] state (len_warmup blocks) of (warmupBlock, used1, state1) \<Rightarrow>
        case buildStrengthOrSkillBlock ranked used1 state1 profile (len_strength blocks) of
          (strengthOrSkill, used2, state2) \<Rightarrow>
        case buildMetcon ranked used2 state2 profile (len_metcon blocks) of
          Inl e \<Rightarrow> Inl e
        | Inr (metconBlock, used3, state3) \<Rightarrow>
        case buildCooldown movements state3 (len_cooldown blocks) of (cooldownBlock, state4) \<Rightarrow>
        let selectedForScaling =
              movement_names warmupBlock @ metcon_movements metconBlock
              @ (case strengthOrSkill of Some b \<Rightarrow> [strength_movement b] | None \<Rightarrow> [])
        in Inr \<lparr>plan_seed = seed,
                 plan_profile = profile,
                 plan_context =
                   \<lparr>lookback_days = lookbackDays,
                    recent_movements = sort recentMovements,
                    recent_fatigue_patterns = fatigueSummary patternCounter\<rparr>,
                 warmup = warmupBlock,
                 strength_or_skill = strengthOrSkill,
                 metcon = metconBlock,
                 cooldown = cooldownBlock,
                 scaling = buildScalingNotes selectedForScaling byName\<rparr>)"

text \<open>
  The movement names of the three active blocks of a plan, in the order warm-up,
  strength/skill, metcon.
\<close>

definition sessionNames :: "plan \<Rightarrow> string list" where
  "sessionNames pl =
     movement_names (warmup pl)
     @ (case strength_or_skill pl of Some b \<Rightarrow> [strength_movement b] | None \<Rightarrow> [])
     @ metcon_movements (metcon pl)"

subsection \<open>The fatigue analyzer, as the specification words it\<close>


definition normTags :: "string list \<Rightarrow> string list" where
  "normTags tags = map (\<lambda>t. toLowerCase (trim t)) (filter (\<lambda>t. trim t \<noteq> []) tags)"



subsection \<open>Normalized lists\<close>

text \<open>
  A list of the normalized profile: sorted, without duplicates, of non-empty texts that are
  trimmed and lower-case.
\<close>

definition normalizedText :: "string \<Rightarrow> bool" where
  "normalizedText x = (x \<noteq> [] \<and> toLowerCase x = x \<and> trim x = x)"

definition normalizedList :: "string list \<Rightarrow> bool" where
  "normalizedList xs = (sorted xs \<and> distinct xs \<and> list_all normalizedText xs)"

subsection \<open>The picks of a session\<close>

text \<open>
  \<open>picked\<close> is the list of the movement that a pick returned, if any. The set of used
  names covers a list of picks when their normalized names are pairwise different and all
  in the set.
\<close>

definition picked :: "movement option \<Rightarrow> movement list" where
  "picked r = (case r of Some m \<Rightarrow> [m] | None \<Rightarrow> [])"

definition usedCovers :: "string list \<Rightarrow> movement list \<Rightarrow> bool" where
  "usedCovers used picks =
     (distinct (map normName picks) \<and> set (map normName picks) \<subseteq> set used)"

subsection \<open>Example inputs\<close>

text \<open>
  The profile that \<^verbatim>\<open>mergeProfile({})\<close> returns, a library of three movements and the
  plan that \<^verbatim>\<open>buildPlan\<close> returns for them with seed 1 and an empty history.
\<close>

definition DEFAULT_NORMALIZED :: profile where
  "DEFAULT_NORMALIZED =
     \<lparr>goal = Mixed, fitness_level = Intermediate, session_minutes = 45,
      equipment_available = [''none''], avoid_patterns = [], avoid_movements = [],
      preferred_modalities =
        [''gymnastics'', ''monostructural'', ''odd-object'', ''weightlifting''],
      wod_type = None, intensity = Moderate, other_keys = []\<rparr>"

definition EXAMPLE_LIBRARY :: "movement list" where
  "EXAMPLE_LIBRARY =
     [\<lparr>name = ''plank'', modality = ''gymnastics'', patterns = [],
       difficulty = ''beginner'', effects = [], equipment = [], variations = []\<rparr>,
      \<lparr>name = ''deadlift'', modality = ''weightlifting'', patterns = [],
       difficulty = ''intermediate'', effects = [], equipment = [], variations = []\<rparr>,
      \<lparr>name = ''clean'', modality = ''weightlifting'', patterns = [],
       difficulty = ''intermediate'', effects = [], equipment = [], variations = []\<rparr>]"

definition EXAMPLE_PLAN :: plan where
  "EXAMPLE_PLAN =
     \<lparr>plan_seed = 1,
      plan_profile = DEFAULT_NORMALIZED,
      plan_context = \<lparr>lookback_days = 2, recent_movements = [], recent_fatigue_patterns = []\<rparr>,
      warmup =
        \<lparr>duration_min = 8,
         movement_names = [''easy cardio'', ''plank'', ''plank''],
         items = [''4 min easy easy cardio'',
                  ''2 rounds: 10 plank, 8 plank, 20 sec nasal breathing'']\<rparr>,
      strength_or_skill =
        Some \<lparr>focus = ''strength'', strength_duration_min = 10,
              strength_movement = ''deadlift'',
              prescription = ''deadlift: 5 x 3 @ challenging load (RPE 8), rest 2 min''\<rparr>,
      metcon =
        \<lparr>metcon_type = Emom, metcon_duration_min = 18,
         metcon_movements = [''clean''],
         description = ''EMOM 18 (cycle 1 stations): Min 1: 10 reps clean''\<rparr>,
      cooldown =
        \<lparr>duration_min = 6,
         movement_names = [''Breathing walk'', ''Hip opener'', ''Thoracic opener''],
         items = [''2 min easy breathing walk'',
                  ''2 x 45 sec per side hip opener'',
                  ''2 x 45 sec thoracic opener'']\<rparr>,
      scaling =
        [\<lparr>note_movement = ''plank'',
           easier = ''Reduce reps and use controlled tempo'',
           harder = ''Increase load or reduce rest''\<rparr>,
         \<lparr>note_movement = ''plank'',
           easier = ''Reduce reps and use controlled tempo'',
           harder = ''Increase load or reduce rest''\<rparr>,
         \<lparr>note_movement = ''clean'',
           easier = ''Reduce reps and use controlled tempo'',
           harder = ''Increase load or reduce rest''\<rparr>,
         \<lparr>note_movement = ''deadlift'',
           easier = ''Reduce reps and use controlled tempo'',
           harder = ''Increase load or reduce rest''\<rparr>]\<rparr>"

text \<open>A library whose only movement is beyond a beginner, and a beginner's profile.\<close>

definition ADVANCED_ONLY :: "movement list" where
  "ADVANCED_ONLY =
     [\<lparr>name = ''ring muscle-up'', modality = ''gymnastics'', patterns = [''pull''],
       difficulty = ''advanced'', effects = [''skill''], equipment = [''rings''],
       variations = []\<rparr>]"

definition BEGINNER_PROFILE :: profile where
  "BEGINNER_PROFILE = DEFAULT_NORMALIZED\<lparr>fitness_level := Beginner\<rparr>"

text \<open>A movement whose difficulty label is a name that every object inherits.\<close>

definition INHERITED_LABEL :: movement where
  "INHERITED_LABEL =
     \<lparr>name = ''pistol squat'', modality = ''gymnastics'', patterns = [],
      difficulty = ''constructor'', effects = [], equipment = [], variations = []\<rparr>"


text \<open>
  Three readings of the clock: the morning and the last millisecond of 2024-10-04, which is
  day 20000 after 1970-01-01, and a morning forty days later.
\<close>

definition EXAMPLE_NOW :: jsDate where
  "EXAMPLE_NOW =
     \<lparr>getFullYear = 2024, getMonth = 9, getDate = 4,
      getHours = 9, getMinutes = 30, getSeconds = 0, getMilliseconds = 0\<rparr>"


definition EXAMPLE_LATER :: jsDate where
  "EXAMPLE_LATER =
     \<lparr>getFullYear = 2024, getMonth = 10, getDate = 13,
      getHours = 9, getMinutes = 30, getSeconds = 0, getMilliseconds = 0\<rparr>"

text \<open>
  A history of four sessions for a run on 2024-10-04 with a window of two
  days: one of the day before, one of the month before, one without a date and one whose
  date cannot be parsed; and a library with pattern tags.
\<close>

definition EXAMPLE_HISTORY :: "session list" where
  "EXAMPLE_HISTORY =
     [\<lparr>session_date = Some ''2024-10-03'', session_movements = [''Deadlift'', '' ''],
       session_patterns = [''Hinge'']\<rparr>,
      \<lparr>session_date = Some ''2024-09-01'', session_movements = [''Clean''],
       session_patterns = [''pull'']\<rparr>,
      \<lparr>session_date = None, session_movements = [''plank''], session_patterns = []\<rparr>,
      \<lparr>session_date = Some ''yesterday'', session_movements = [''Clean''],
       session_patterns = []\<rparr>]"

definition TAGGED_LIBRARY :: "movement list" where
  "TAGGED_LIBRARY =
     [\<lparr>name = ''Plank'', modality = ''gymnastics'', patterns = [''core''],
       difficulty = ''beginner'', effects = [], equipment = [], variations = []\<rparr>,
      \<lparr>name = ''Deadlift'', modality = ''weightlifting'', patterns = [''hinge'', ''Pull ''],
       difficulty = ''intermediate'', effects = [], equipment = [''barbell''], variations = []\<rparr>,
      \<lparr>name = ''Clean'', modality = ''weightlifting'', patterns = [''pull''],
       difficulty = ''intermediate'', effects = [''power''], equipment = [''barbell''],
       variations = []\<rparr>]"

text \<open>
  Two movements whose scores differ in the last bit only, and the pattern counts that make
  them differ: \<^verbatim>\<open>2.0 - 1.3 * 3 + 0.4\<close> is \<^verbatim>\<open>-1.5000000000000004\<close> and
  \<^verbatim>\<open>2.0 - 1.3 * 1 - 1.3 * 2 + 0.4\<close> is \<^verbatim>\<open>-1.5\<close>.
\<close>

definition HOLLOW_HOLD :: movement where
  "HOLLOW_HOLD =
     \<lparr>name = ''hollow hold'', modality = ''gymnastics'', patterns = [''core''],
      difficulty = ''beginner'', effects = [], equipment = [], variations = []\<rparr>"

definition LUNGE :: movement where
  "LUNGE =
     \<lparr>name = ''lunge'', modality = ''gymnastics'', patterns = [''squat'', ''hinge''],
      difficulty = ''beginner'', effects = [], equipment = [], variations = []\<rparr>"

definition EXAMPLE_COUNTER :: "(string \<times> nat) list" where
  "EXAMPLE_COUNTER = [(''core'', 3), (''squat'', 1), (''hinge'', 2)]"

section \<open>Lemmas about the random source and the pick primitive\<close>

lemma rngNext_range: "0 \<le> fst (rngNext st) \<and> fst (rngNext st) < 4294967296"
proof -
  have "uint w < 4294967296" for w :: "32 word"
    using uint_bounded [of w] by simp
  then show ?thesis by (simp add: rngNext_def Let_def)
qed

lemma rngIndex_less:
  assumes "0 \<le> u" "u < 4294967296" "0 < n"
  shows "rngIndex u n < n"
proof -
  define a where "a = u * int n"
  have lt: "a < 4294967296 * int n"
    unfolding a_def using assms by (simp add: mult_strict_right_mono)
  have ge: "0 \<le> a" unfolding a_def using assms(1) by simp
  have eq: "a = 4294967296 * (a div 4294967296) + a mod 4294967296" by simp
  have r: "0 \<le> a mod 4294967296" by simp
  have "a div 4294967296 < int n" using lt eq r by linarith
  moreover have "0 \<le> a div 4294967296"
    using ge by (simp add: pos_imp_zdiv_nonneg_iff)
  ultimately show ?thesis by (simp add: rngIndex_def a_def)
qed

lemma rngChoice_member:
  assumes "vals \<noteq> []"
  shows "\<exists>x \<in> set vals. fst (rngChoice vals st) = Some x"
proof -
  have "rngIndex (fst (rngNext st)) (length vals) < length vals"
    using rngNext_range [of st] assms by (intro rngIndex_less) simp_all
  then show ?thesis using assms by (simp add: rngChoice_def Let_def)
qed

lemma pickBest_Some:
  assumes "pickBest ranked st used mods incl = (Some m, used', st')"
  shows "m \<in> fst ` set ranked \<and> (incl \<or> normModality m \<noteq> ''recovery'')
       \<and> normName m \<notin> set used \<and> used' = setAdd used (normName m)
       \<and> (case mods of None \<Rightarrow> True | Some ms \<Rightarrow> normModality m \<in> set ms)"
proof -
  define filtered where
    "filtered = filter (\<lambda>entry. pickCandidate used mods incl (fst entry)) ranked"
  define top where "top = take (min 8 (length filtered)) filtered"
  have ne: "filtered \<noteq> []"
    using assms by (auto simp: pickBest_def filtered_def Let_def)
  then have tne: "top \<noteq> []" by (cases filtered) (simp_all add: top_def)
  obtain x where x: "x \<in> set top" "fst (rngChoice top st) = Some x"
    using rngChoice_member [OF tne] by blast
  have "pickBest ranked st used mods incl
          = (Some (fst x), setAdd used (normName (fst x)), snd (rngChoice top st))"
    using ne x(2) unfolding pickBest_def filtered_def [symmetric] Let_def top_def [symmetric]
    by (cases "rngChoice top st") simp
  then have m: "m = fst x" "used' = setAdd used (normName (fst x))"
    using assms by simp_all
  have "x \<in> set filtered" using x(1) by (auto simp: top_def dest: in_set_takeD)
  then show ?thesis unfolding m filtered_def by (auto simp: pickCandidate_def split: option.splits)
qed

lemma pickBest_None:
  assumes "pickBest ranked st used mods incl = (None, used', st')"
  shows "used' = used \<and> st' = st"
proof -
  define filtered where
    "filtered = filter (\<lambda>entry. pickCandidate used mods incl (fst entry)) ranked"
  define top where "top = take (min 8 (length filtered)) filtered"
  show ?thesis
  proof (cases "filtered = []")
    case True
    then show ?thesis using assms by (simp add: pickBest_def filtered_def Let_def)
  next
    case False
    then have tne: "top \<noteq> []" by (cases filtered) (simp_all add: top_def)
    obtain x where x: "x \<in> set top" "fst (rngChoice top st) = Some x"
      using rngChoice_member [OF tne] by blast
    have "pickBest ranked st used mods incl
          = (Some (fst x), setAdd used (normName (fst x)), snd (rngChoice top st))"
      using False x(2) unfolding pickBest_def filtered_def [symmetric] Let_def top_def [symmetric]
      by (cases "rngChoice top st") simp
    then show ?thesis using assms by simp
  qed
qed

lemma rankCandidates_subset:
  "fst ` set (rankCandidates movements profile recentMovements patternCounter) \<subseteq> set movements"
  by (auto simp: rankCandidates_def)

lemma buildStrengthOrSkillBlock_Some:
  assumes "buildStrengthOrSkillBlock ranked used st profile minutes = (Some b, used', st')"
  shows "\<exists>m. m \<in> fst ` set ranked \<and> normModality m \<noteq> ''recovery''
            \<and> strength_movement b = name m \<and> strength_duration_min b = minutes"
proof -
  define mods where "mods = (if goal profile = Skill then [''gymnastics'', ''weightlifting'']
                          else [''weightlifting'', ''odd-object''])"
  obtain r u s where p: "pickBest ranked st used (Some mods) False = (r, u, s)"
    by (cases "pickBest ranked st used (Some mods) False") auto
  have skip: "\<not> (goal profile = Engine \<and> session_minutes profile \<le> 35)"
    using assms by (auto simp: buildStrengthOrSkillBlock_def)
  show ?thesis
  proof (cases r)
    case None
    then show ?thesis
      using assms skip p
      by (simp add: buildStrengthOrSkillBlock_def Let_def mods_def [symmetric])
  next
    case (Some m)
    then have b: "strength_movement b = name m" "strength_duration_min b = minutes"
      using assms skip p
      by (auto simp: buildStrengthOrSkillBlock_def Let_def mods_def [symmetric])
    from pickBest_Some [OF p [unfolded Some]] b show ?thesis by auto
  qed
qed

lemma pickGroup_all:
  assumes "pickGroup ranked g (ms, used, st) = (ms', used', st')"
      and "\<forall>m \<in> set ms. m \<in> fst ` set ranked \<and> normModality m \<noteq> ''recovery''"
  shows "\<forall>m \<in> set ms'. m \<in> fst ` set ranked \<and> normModality m \<noteq> ''recovery''"
proof -
  obtain r u s where p: "pickBest ranked st used (Some g) False = (r, u, s)"
    by (cases "pickBest ranked st used (Some g) False") auto
  show ?thesis
  proof (cases r)
    case None
    then show ?thesis using assms p by (simp add: pickGroup_def)
  next
    case (Some m)
    then have "ms' = ms @ [m]" using assms(1) p by (simp add: pickGroup_def)
    with pickBest_Some [OF p [unfolded Some]] assms(2) show ?thesis by auto
  qed
qed

lemma topUp_all:
  assumes "\<forall>m \<in> set (fst st). m \<in> fst ` set ranked \<and> normModality m \<noteq> ''recovery''"
  shows "\<forall>m \<in> set (fst (topUp ranked n st)). m \<in> fst ` set ranked \<and> normModality m \<noteq> ''recovery''"
  using assms
proof (induction ranked n st rule: topUp.induct)
  case (1 ranked targetCount metconMovements used state)
  let ?mods = "Some [''monostructural'', ''gymnastics'', ''weightlifting'', ''odd-object'']"
  obtain r u s where p: "pickBest ranked state used ?mods False = (r, u, s)"
    by (cases "pickBest ranked state used ?mods False") auto
  show ?case
  proof (cases "length metconMovements < targetCount")
    case False
    then show ?thesis using "1.prems" by simp
  next
    case True
    show ?thesis
    proof (cases r)
      case None
      then show ?thesis using True p "1.prems" by simp
    next
      case (Some extra)
      have ok: "extra \<in> fst ` set ranked \<and> normModality extra \<noteq> ''recovery''"
        using pickBest_Some [OF p [unfolded Some]] by auto
      have "\<forall>m \<in> set (fst (topUp ranked targetCount (metconMovements @ [extra], u, s))).
               m \<in> fst ` set ranked \<and> normModality m \<noteq> ''recovery''"
        using "1.IH" [OF True p [unfolded Some, symmetric] refl refl] "1.prems" ok
        by auto
      then show ?thesis using True p Some by simp
    qed
  qed
qed

lemma metconPicks_all:
  "\<forall>m \<in> set (fst (metconPicks ranked used st profile)).
      m \<in> fst ` set ranked \<and> normModality m \<noteq> ''recovery''"
proof -
  let ?P = "\<lambda>s :: movement list \<times> string list \<times> rng.
       \<forall>m \<in> set (fst s). m \<in> fst ` set ranked \<and> normModality m \<noteq> ''recovery''"
  have step: "?P s \<Longrightarrow> ?P (pickGroup ranked g s)" for s g
  proof -
    assume a: "?P s"
    obtain ms u r where s: "s = (ms, u, r)" by (cases s) auto
    obtain ms' u' r' where s': "pickGroup ranked g (ms, u, r) = (ms', u', r')"
      by (cases "pickGroup ranked g (ms, u, r)") auto
    from pickGroup_all [OF s'] a s have "\<forall>m \<in> set ms'. m \<in> fst ` set ranked \<and> normModality m \<noteq> ''recovery''"
      by simp
    then show ?thesis using s s' by simp
  qed
  have foldP: "?P s \<Longrightarrow> ?P (fold (pickGroup ranked) gs s)" for gs s
  proof (induction gs arbitrary: s)
    case Nil
    then show ?case by simp
  next
    case (Cons g gs)
    have "?P (pickGroup ranked g s)" using Cons.prems by (rule step)
    then have "?P (fold (pickGroup ranked) gs (pickGroup ranked g s))" by (rule Cons.IH)
    then show ?case by simp
  qed
  have "?P ([], used, st)" by simp
  then have "?P (fold (pickGroup ranked)
          [[''monostructural''], [''gymnastics''], [''weightlifting'', ''odd-object'']]
          ([], used, st))"
    by (rule foldP)
  then show ?thesis unfolding metconPicks_def by (rule topUp_all)
qed

lemma buildMetcon_Inr:
  assumes "buildMetcon ranked used st profile minutes = Inr (mb, used', st')"
  shows "metcon_movements mb \<noteq> [] \<and> metcon_duration_min mb = minutes
       \<and> (\<forall>n \<in> set (metcon_movements mb).
             \<exists>m. m \<in> fst ` set ranked \<and> normModality m \<noteq> ''recovery'' \<and> name m = n)"
proof -
  obtain w s0 where c: "chooseWodType profile st = (w, s0)"
    by (cases "chooseWodType profile st") auto
  obtain ms u s where p: "metconPicks ranked used s0 profile = (ms, u, s)"
    by (cases "metconPicks ranked used s0 profile") auto
  have all: "\<forall>m \<in> set ms. m \<in> fst ` set ranked \<and> normModality m \<noteq> ''recovery''"
    using metconPicks_all [of ranked used s0 profile] p by simp
  have ne: "ms \<noteq> []" using assms c p by (auto simp: buildMetcon_def)
  have mb: "metcon_movements mb = map name ms" "metcon_duration_min mb = minutes"
    using assms c p ne by (auto simp: buildMetcon_def Let_def)
  show ?thesis using all ne mb by auto
qed

lemma buildMetcon_Inl:
  assumes "buildMetcon ranked used st profile minutes = Inl e"
  shows "e = Error ''No eligible movements remain for metcon after constraints.''"
proof -
  obtain w s0 where c: "chooseWodType profile st = (w, s0)"
    by (cases "chooseWodType profile st") auto
  obtain ms u s where p: "metconPicks ranked used s0 profile = (ms, u, s)"
    by (cases "metconPicks ranked used s0 profile") auto
  show ?thesis using assms c p by (auto simp: buildMetcon_def Let_def split: if_splits)
qed

lemma buildWarmup_shape:
  assumes "buildWarmup ranked used st minutes = (wb, used', st')"
  shows "duration_min wb = minutes \<and> length (movement_names wb) = 3 \<and> length (items wb) = 2"
  using assms by (auto simp: buildWarmup_def Let_def split: prod.splits)

lemma buildCooldown_shape:
  assumes "buildCooldown movements st minutes = (cb, st')"
  shows "duration_min cb = minutes \<and> length (movement_names cb) = 3 \<and> length (items cb) = 3"
  using assms by (auto simp: buildCooldown_def Let_def split: list.splits)

lemma buildPlan_Inr_blocks:
  assumes "buildPlan now profile history movements lookbackDays seed = Inr pl"
  obtains used1 st1 used2 st2 used3 st3 st4 where
    "rankCandidates movements profile
        (fst (recentContext now history (movementMap movements) lookbackDays))
        (snd (recentContext now history (movementMap movements) lookbackDays)) \<noteq> []"
    "buildWarmup (rankCandidates movements profile
        (fst (recentContext now history (movementMap movements) lookbackDays))
        (snd (recentContext now history (movementMap movements) lookbackDays)))
        [] (SeededRng seed) (len_warmup (sessionBlockLengths (session_minutes profile)))
      = (warmup pl, used1, st1)"
    "buildStrengthOrSkillBlock (rankCandidates movements profile
        (fst (recentContext now history (movementMap movements) lookbackDays))
        (snd (recentContext now history (movementMap movements) lookbackDays)))
        used1 st1 profile (len_strength (sessionBlockLengths (session_minutes profile)))
      = (strength_or_skill pl, used2, st2)"
    "buildMetcon (rankCandidates movements profile
        (fst (recentContext now history (movementMap movements) lookbackDays))
        (snd (recentContext now history (movementMap movements) lookbackDays)))
        used2 st2 profile (len_metcon (sessionBlockLengths (session_minutes profile)))
      = Inr (metcon pl, used3, st3)"
    "buildCooldown movements st3 (len_cooldown (sessionBlockLengths (session_minutes profile)))
      = (cooldown pl, st4)"
    "plan_profile pl = profile" "plan_seed pl = seed"
  using assms
  by (auto simp: buildPlan_def Let_def split: if_splits prod.splits sum.splits)

lemma buildPlan_Inl:
  assumes "buildPlan now profile history movements lookbackDays seed = Inl e"
  shows "e = Error ''No movements match the current equipment/level/limitations. Relax constraints and retry.''
       \<or> e = Error ''No eligible movements remain for metcon after constraints.''"
  using assms
  by (auto simp: buildPlan_def Let_def split: if_splits prod.splits sum.splits
           dest: buildMetcon_Inl)

section \<open>Lemmas about texts, sets and counters\<close>

lemma of_char_lowerChar_range:
  "\<not> (65 \<le> (of_char (lowerChar c) :: nat) \<and> (of_char (lowerChar c) :: nat) \<le> 90)"
proof (cases "65 \<le> (of_char c :: nat) \<and> (of_char c :: nat) \<le> 90")
  case True
  then have "(of_char (lowerChar c) :: nat) = of_char c + 32"
    by (simp add: lowerChar_def)
  then show ?thesis using True by simp
next
  case False
  then show ?thesis by (simp add: lowerChar_def)
qed

lemma lowerChar_idem: "lowerChar (lowerChar c) = lowerChar c"
  unfolding lowerChar_def [of "lowerChar c"]
  by (rule if_not_P [OF of_char_lowerChar_range])

lemma toLowerCase_idem: "toLowerCase (toLowerCase s) = toLowerCase s"
  by (simp add: toLowerCase_def lowerChar_idem)

lemma isWhiteSpace_lowerChar: "isWhiteSpace (lowerChar c) = isWhiteSpace c"
proof (cases "65 \<le> (of_char c :: nat) \<and> (of_char c :: nat) \<le> 90")
  case True
  then have "(of_char (lowerChar c) :: nat) = of_char c + 32"
    by (simp add: lowerChar_def)
  then show ?thesis using True by (auto simp: isWhiteSpace_def)
next
  case False
  then have "lowerChar c = c" unfolding lowerChar_def by (rule if_not_P)
  then show ?thesis by simp
qed

lemma dropWhile_ws_toLowerCase:
  "dropWhile isWhiteSpace (toLowerCase s) = toLowerCase (dropWhile isWhiteSpace s)"
  by (induction s) (simp_all add: toLowerCase_def isWhiteSpace_lowerChar)

lemma rev_toLowerCase: "rev (toLowerCase s) = toLowerCase (rev s)"
  by (simp add: toLowerCase_def rev_map)

lemma trim_toLowerCase: "trim (toLowerCase s) = toLowerCase (trim s)"
  by (simp add: trim_def dropWhile_ws_toLowerCase rev_toLowerCase)

lemma dropWhile_idem: "dropWhile P (dropWhile P xs) = dropWhile P xs"
  by (induction xs) auto

lemma dropWhile_rev_dropWhile:
  "dropWhile P (rev (dropWhile P (rev (dropWhile P xs)))) = rev (dropWhile P (rev (dropWhile P xs)))"
proof (cases "rev (dropWhile P (rev (dropWhile P xs)))")
  case Nil
  show ?thesis unfolding Nil by simp
next
  case (Cons y ys)
  define zs where "zs = dropWhile P xs"
  have z: "zs = [] \<or> \<not> P (hd zs)"
    unfolding zs_def by (metis dropWhile_eq_Nil_conv hd_dropWhile)
  have "rev (dropWhile P (rev zs)) \<noteq> []" using Cons by (simp add: zs_def)
  then have ne: "zs \<noteq> []" by auto
  obtain ws where ws: "rev zs = takeWhile P (rev zs) @ dropWhile P (rev zs)" by simp
  have "zs = rev (dropWhile P (rev zs)) @ rev (takeWhile P (rev zs))"
    by (metis rev_append rev_rev_ident takeWhile_dropWhile_id)
  then have "hd zs = hd (rev (dropWhile P (rev zs)))"
    using \<open>rev (dropWhile P (rev zs)) \<noteq> []\<close> by (metis hd_append2)
  then have "\<not> P (hd (rev (dropWhile P (rev zs))))" using z ne by auto
  then show ?thesis
    using \<open>rev (dropWhile P (rev zs)) \<noteq> []\<close> unfolding zs_def [symmetric]
    by (cases "rev (dropWhile P (rev zs))") auto
qed

lemma trim_idem: "trim (trim s) = trim s"
  by (simp add: trim_def dropWhile_rev_dropWhile dropWhile_idem)

lemma normalized_text:
  "toLowerCase (toLowerCase (trim s)) = toLowerCase (trim s)
   \<and> trim (toLowerCase (trim s)) = toLowerCase (trim s)"
  by (simp add: toLowerCase_idem trim_toLowerCase trim_idem)

lemma toLowerCase_Nil_iff: "toLowerCase s = [] \<longleftrightarrow> s = []"
  by (simp add: toLowerCase_def)

lemma set_setAdd: "set (setAdd xs x) = insert x (set xs)"
  by (auto simp: setAdd_def)


lemma normTags_Cons:
  "normTags (t # ts) = (if trim t = [] then normTags ts else toLowerCase (trim t) # normTags ts)"
  by (simp add: normTags_def)

lemma normTags_Nil: "normTags [] = []"
  by (simp add: normTags_def)


lemma normalizedText_norm: "trim v \<noteq> [] \<Longrightarrow> normalizedText (toLowerCase (trim v))"
  by (simp add: normalizedText_def toLowerCase_Nil_iff toLowerCase_idem trim_toLowerCase trim_idem)

lemma distinct_setAdd: "distinct xs \<Longrightarrow> distinct (setAdd xs x)"
  by (simp add: setAdd_def)

lemma asLowerSet_foldl:
  fixes f :: "string list \<Rightarrow> string \<Rightarrow> string list"
  defines "f \<equiv> (\<lambda>out v. let normalized = toLowerCase (trim v)
                     in if normalized \<noteq> [] then setAdd out normalized else out)"
  shows "set (foldl f acc vals) = set acc \<union> set (normTags vals)
       \<and> (distinct acc \<longrightarrow> distinct (foldl f acc vals))"
proof (induction vals arbitrary: acc)
  case Nil
  then show ?case by (simp add: normTags_Nil)
next
  case (Cons v vs)
  have step: "f acc v = (if trim v = [] then acc else setAdd acc (toLowerCase (trim v)))"
    by (simp add: f_def Let_def toLowerCase_Nil_iff)
  show ?case
  proof (cases "trim v = []")
    case True
    then show ?thesis using Cons.IH [of acc] by (simp add: step normTags_Cons)
  next
    case False
    then show ?thesis
      using Cons.IH [of "setAdd acc (toLowerCase (trim v))"]
      by (simp add: step normTags_Cons set_setAdd distinct_setAdd)
  qed
qed

lemma set_asLowerSet: "set (asLowerSet vals) = set (normTags vals)"
  using asLowerSet_foldl [of "[]" vals] by (simp add: asLowerSet_def)

lemma distinct_asLowerSet: "distinct (asLowerSet vals)"
  using asLowerSet_foldl [of "[]" vals] by (simp add: asLowerSet_def)

lemma normTags_normalized: "x \<in> set (normTags vals) \<Longrightarrow> normalizedText x"
  by (auto simp: normTags_def normalizedText_norm)

lemma asLowerSet_normalized: "x \<in> set (asLowerSet vals) \<Longrightarrow> normalizedText x"
  by (simp add: set_asLowerSet normTags_normalized)

lemma asLowerSet_fixed:
  assumes "distinct xs" "list_all normalizedText xs"
  shows "set (asLowerSet xs) = set xs"
proof -
  have "normTags xs = xs" using assms(2)
    by (induction xs) (simp_all add: normTags_Nil normTags_Cons normalizedText_def)
  then show ?thesis by (simp add: set_asLowerSet)
qed

lemma normalizedList_sorted:
  assumes "distinct xs" "\<forall>x \<in> set xs. normalizedText x"
  shows "normalizedList (sortedListFromSet xs)"
  using assms by (simp add: normalizedList_def sortedListFromSet_def list_all_iff)

lemma normalizedText_none: "normalizedText ''none''"
  by code_simp

section \<open>Lemmas about the set of used names\<close>

lemma pickWarmup_cases:
  "(\<exists>m. fst (pickWarmup ranked used st candidates) = Some m
        \<and> m \<in> fst ` set ranked \<and> normName m \<notin> set used
        \<and> fst (snd (pickWarmup ranked used st candidates)) = setAdd used (normName m))
   \<or> (fst (pickWarmup ranked used st candidates) = None
        \<and> fst (snd (pickWarmup ranked used st candidates)) = used)"
proof -
  define wf where
    "wf = filter (\<lambda>entry. warmupCandidate used candidates (fst entry)) ranked"
  define top where "top = take (min 8 (length wf)) wf"
  show ?thesis
  proof (cases "wf = []")
    case True
    then have e: "pickWarmup ranked used st candidates
        = pickBest ranked st used (Some candidates) False"
      unfolding pickWarmup_def wf_def [symmetric] Let_def by simp
    obtain r u s where p: "pickBest ranked st used (Some candidates) False = (r, u, s)"
      by (cases "pickBest ranked st used (Some candidates) False") auto
    show ?thesis
    proof (cases r)
      case None
      with pickBest_None [OF p [unfolded None]] p e show ?thesis by simp
    next
      case (Some m)
      with pickBest_Some [OF p [unfolded Some]] p e show ?thesis by simp
    qed
  next
    case False
    then have tne: "top \<noteq> []" by (cases wf) (simp_all add: top_def)
    obtain x where x: "x \<in> set top" "fst (rngChoice top st) = Some x"
      using rngChoice_member [OF tne] by blast
    have e: "pickWarmup ranked used st candidates
          = (Some (fst x), setAdd used (normName (fst x)), snd (rngChoice top st))"
      using False x(2) unfolding pickWarmup_def wf_def [symmetric] Let_def top_def [symmetric]
      by (cases "rngChoice top st") simp
    have "x \<in> set wf" using x(1) by (auto simp: top_def dest: in_set_takeD)
    then have "x \<in> set ranked \<and> normName (fst x) \<notin> set used"
      by (auto simp: wf_def warmupCandidate_def Let_def)
    then show ?thesis by (auto simp: e)
  qed
qed

lemma usedCovers_add:
  assumes "usedCovers used ps" "normName m \<notin> set used"
  shows "usedCovers (setAdd used (normName m)) (ps @ [m])"
  using assms by (auto simp: usedCovers_def set_setAdd)

lemma usedCovers_picked:
  assumes "usedCovers used ps"
      and "(r = Some m \<and> normName m \<notin> set used \<and> used' = setAdd used (normName m))
           \<or> (r = None \<and> used' = used)"
  shows "usedCovers used' (ps @ picked r)"
  using assms usedCovers_add [of used ps m] by (auto simp: picked_def)

lemma pickWarmup_covers:
  assumes "pickWarmup ranked used st candidates = (r, used', st')" "usedCovers used ps"
  shows "usedCovers used' (ps @ picked r) \<and> set (picked r) \<subseteq> fst ` set ranked"
proof -
  from pickWarmup_cases [of ranked used st candidates] assms(1)
  consider m where "r = Some m" "m \<in> fst ` set ranked" "normName m \<notin> set used"
      "used' = setAdd used (normName m)"
    | "r = None" "used' = used"
    by auto
  then show ?thesis
  proof cases
    case 1
    then show ?thesis using usedCovers_picked [OF assms(2), of r m used'] by (simp add: picked_def)
  next
    case 2
    then show ?thesis using assms(2) by (simp add: picked_def)
  qed
qed

lemma pickBest_covers:
  assumes "pickBest ranked st used mods incl = (r, used', st')" "usedCovers used ps"
  shows "usedCovers used' (ps @ picked r) \<and> set (picked r) \<subseteq> fst ` set ranked"
proof (cases r)
  case None
  with pickBest_None [OF assms(1) [unfolded None]] assms(2) show ?thesis
    by (simp add: picked_def)
next
  case (Some m)
  from pickBest_Some [OF assms(1) [unfolded Some]]
  have "m \<in> fst ` set ranked" "normName m \<notin> set used" "used' = setAdd used (normName m)"
    by simp_all
  then show ?thesis using usedCovers_add [OF assms(2), of m] Some by (simp add: picked_def)
qed

lemma buildWarmup_covers:
  assumes "buildWarmup ranked used st minutes = (wb, used', st')" "usedCovers used ps"
  shows "\<exists>cyc base1 base2.
           movement_names wb =
             [case cyc of Some m \<Rightarrow> name m | None \<Rightarrow> ''easy cardio'',
              case base1 of Some m \<Rightarrow> name m | None \<Rightarrow> ''air squat'',
              case base2 of Some m \<Rightarrow> name m | None \<Rightarrow> ''plank'']
         \<and> usedCovers used' (ps @ picked cyc @ picked base1 @ picked base2)
         \<and> set (picked cyc @ picked base1 @ picked base2) \<subseteq> fst ` set ranked"
proof -
  obtain cyc u1 s1 where 1: "pickWarmup ranked used st [''monostructural''] = (cyc, u1, s1)"
    by (cases "pickWarmup ranked used st [''monostructural'']") auto
  obtain base1 u2 s2 where
    2: "pickWarmup ranked u1 s1 [''gymnastics'', ''recovery''] = (base1, u2, s2)"
    by (cases "pickWarmup ranked u1 s1 [''gymnastics'', ''recovery'']") auto
  obtain base2 u3 s3 where
    3: "pickWarmup ranked u2 s2 [''gymnastics'', ''recovery'', ''odd-object''] = (base2, u3, s3)"
    by (cases "pickWarmup ranked u2 s2 [''gymnastics'', ''recovery'', ''odd-object'']") auto
  note c1 = pickWarmup_covers [OF 1 assms(2)]
  note c2 = pickWarmup_covers [OF 2 c1 [THEN conjunct1]]
  note c3 = pickWarmup_covers [OF 3 c2 [THEN conjunct1]]
  have wb: "movement_names wb =
             [case cyc of Some m \<Rightarrow> name m | None \<Rightarrow> ''easy cardio'',
              case base1 of Some m \<Rightarrow> name m | None \<Rightarrow> ''air squat'',
              case base2 of Some m \<Rightarrow> name m | None \<Rightarrow> ''plank'']"
    and u: "used' = u3"
    using assms(1) 1 2 3 by (auto simp: buildWarmup_def Let_def)
  have "usedCovers used' (ps @ picked cyc @ picked base1 @ picked base2)"
    using c3 [THEN conjunct1] u by simp
  moreover have "set (picked cyc @ picked base1 @ picked base2) \<subseteq> fst ` set ranked"
    using c1 c2 c3 by simp
  ultimately show ?thesis using wb by blast
qed

lemma buildStrengthOrSkillBlock_covers:
  assumes "buildStrengthOrSkillBlock ranked used st profile minutes = (sb, used', st')"
      and "usedCovers used ps"
  shows "\<exists>str. (case sb of Some b \<Rightarrow> [strength_movement b] | None \<Rightarrow> []) = map name (picked str)
         \<and> usedCovers used' (ps @ picked str) \<and> set (picked str) \<subseteq> fst ` set ranked"
proof (cases "goal profile = Engine \<and> session_minutes profile \<le> 35")
  case True
  then have "sb = None" "used' = used"
    using assms(1) by (simp_all add: buildStrengthOrSkillBlock_def)
  then show ?thesis using assms(2) by (intro exI [of _ None]) (simp add: picked_def)
next
  case False
  define mods where "mods = (if goal profile = Skill then [''gymnastics'', ''weightlifting'']
                          else [''weightlifting'', ''odd-object''])"
  obtain r u s where p: "pickBest ranked st used (Some mods) False = (r, u, s)"
    by (cases "pickBest ranked st used (Some mods) False") auto
  note c = pickBest_covers [OF p assms(2)]
  have "(case sb of Some b \<Rightarrow> [strength_movement b] | None \<Rightarrow> []) = map name (picked r)
        \<and> used' = u"
    using assms(1) False p
    by (cases r) (auto simp: buildStrengthOrSkillBlock_def Let_def mods_def [symmetric] picked_def)
  then show ?thesis using c by (intro exI [of _ r]) simp
qed

lemma pickGroup_covers:
  assumes "usedCovers (fst (snd s)) (ps @ fst s) \<and> set (fst s) \<subseteq> fst ` set ranked"
  shows "usedCovers (fst (snd (pickGroup ranked g s))) (ps @ fst (pickGroup ranked g s))
       \<and> set (fst (pickGroup ranked g s)) \<subseteq> fst ` set ranked"
proof -
  obtain ms used st where s: "s = (ms, used, st)" by (cases s) auto
  obtain r u t where p: "pickBest ranked st used (Some g) False = (r, u, t)"
    by (cases "pickBest ranked st used (Some g) False") auto
  have c: "usedCovers u ((ps @ ms) @ picked r) \<and> set (picked r) \<subseteq> fst ` set ranked"
    using pickBest_covers [OF p, of "ps @ ms"] assms s by simp
  have e: "pickGroup ranked g (ms, used, st) = (ms @ picked r, u, t)"
    using p by (cases r) (simp_all add: pickGroup_def picked_def)
  show ?thesis unfolding s e using c assms [unfolded s] by simp
qed

lemma topUp_covers:
  assumes "usedCovers (fst (snd s)) (ps @ fst s) \<and> set (fst s) \<subseteq> fst ` set ranked"
  shows "usedCovers (fst (snd (topUp ranked n s))) (ps @ fst (topUp ranked n s))
       \<and> set (fst (topUp ranked n s)) \<subseteq> fst ` set ranked"
  using assms
proof (induction ranked n s rule: topUp.induct)
  case (1 ranked targetCount metconMovements used state)
  let ?mods = "Some [''monostructural'', ''gymnastics'', ''weightlifting'', ''odd-object'']"
  obtain r u t where p: "pickBest ranked state used ?mods False = (r, u, t)"
    by (cases "pickBest ranked state used ?mods False") auto
  show ?case
  proof (cases "length metconMovements < targetCount")
    case False
    then show ?thesis using "1.prems" by simp
  next
    case True
    show ?thesis
    proof (cases r)
      case None
      have "u = used" using pickBest_None [OF p [unfolded None]] by simp
      then show ?thesis using True p None "1.prems" by simp
    next
      case (Some extra)
      have c: "usedCovers u ((ps @ metconMovements) @ picked r) \<and> set (picked r) \<subseteq> fst ` set ranked"
        using pickBest_covers [OF p, of "ps @ metconMovements"] "1.prems" by simp
      have pre: "usedCovers (fst (snd (metconMovements @ [extra], u, t)))
                   (ps @ fst (metconMovements @ [extra], u, t))
               \<and> set (fst (metconMovements @ [extra], u, t)) \<subseteq> fst ` set ranked"
        using c "1.prems" Some by (simp add: picked_def)
      note ih = "1.IH" [OF True p [unfolded Some, symmetric] refl refl pre]
      show ?thesis using True p Some ih by simp
    qed
  qed
qed

lemma metconPicks_covers:
  assumes "usedCovers used ps"
  shows "usedCovers (fst (snd (metconPicks ranked used st profile)))
           (ps @ fst (metconPicks ranked used st profile))
       \<and> set (fst (metconPicks ranked used st profile)) \<subseteq> fst ` set ranked"
proof -
  let ?P = "\<lambda>s :: movement list \<times> string list \<times> rng.
       usedCovers (fst (snd s)) (ps @ fst s) \<and> set (fst s) \<subseteq> fst ` set ranked"
  have foldP: "?P s \<Longrightarrow> ?P (fold (pickGroup ranked) gs s)" for gs s
  proof (induction gs arbitrary: s)
    case Nil
    then show ?case by simp
  next
    case (Cons g gs)
    have "?P (pickGroup ranked g s)" using Cons.prems by (rule pickGroup_covers)
    then have "?P (fold (pickGroup ranked) gs (pickGroup ranked g s))" by (rule Cons.IH)
    then show ?case by simp
  qed
  have "?P ([], used, st)" using assms by simp
  then have "?P (fold (pickGroup ranked)
          [[''monostructural''], [''gymnastics''], [''weightlifting'', ''odd-object'']]
          ([], used, st))"
    by (rule foldP)
  then show ?thesis unfolding metconPicks_def by (rule topUp_covers)
qed

lemma buildMetcon_covers:
  assumes "buildMetcon ranked used st profile minutes = Inr (mb, used', st')"
      and "usedCovers used ps"
  shows "\<exists>mts. metcon_movements mb = map name mts \<and> usedCovers used' (ps @ mts)
             \<and> set mts \<subseteq> fst ` set ranked"
proof -
  obtain w s0 where c: "chooseWodType profile st = (w, s0)"
    by (cases "chooseWodType profile st") auto
  obtain ms u s where p: "metconPicks ranked used s0 profile = (ms, u, s)"
    by (cases "metconPicks ranked used s0 profile") auto
  have cov: "usedCovers u (ps @ ms) \<and> set ms \<subseteq> fst ` set ranked"
    using metconPicks_covers [OF assms(2), of ranked s0 profile] p by simp
  have ne: "ms \<noteq> []" using assms(1) c p by (auto simp: buildMetcon_def)
  have "metcon_movements mb = map name ms \<and> used' = u"
    using assms(1) c p ne by (auto simp: buildMetcon_def Let_def)
  then show ?thesis using cov by (intro exI [of _ ms]) simp
qed

section \<open>Lemmas about the normalizer\<close>

lemma mergeProfile_Inr:
  assumes "mergeProfile rawProfile = Inr p"
  obtains levelText goalText intensityText minutesText where
    "p = normalizedProfile (fold (\<lambda>(key, v) acc. assign acc key v) rawProfile DEFAULT_PROFILE)
           levelText goalText intensityText minutesText"
  using assms
  by (auto simp: mergeProfile_def Let_def bind_eq_Some_conv split: option.splits)






lemma mergeProfile_normalized:
  assumes "mergeProfile rawProfile = Inr p"
  shows "20 \<le> session_minutes p \<and> session_minutes p \<le> 120
       \<and> normalizedList (equipment_available p) \<and> ''none'' \<in> set (equipment_available p)
       \<and> normalizedList (avoid_patterns p) \<and> normalizedList (avoid_movements p)
       \<and> preferred_modalities p \<noteq> [] \<and> distinct (preferred_modalities p)
       \<and> set (preferred_modalities p) \<subseteq> set VALID_MODALITIES"
proof -
  from assms obtain l g i m where
    p: "p = normalizedProfile (fold (\<lambda>(key, v) acc. assign acc key v) rawProfile DEFAULT_PROFILE)
           l g i m"
    by (rule mergeProfile_Inr)
  define obj where "obj = fold (\<lambda>(key, v) acc. assign acc key v) rawProfile DEFAULT_PROFILE"
  define eq where "eq = setAdd
            (asLowerSet (jsonStrings (jsOr (getProp obj ''equipment_available'') (JArr [JStr ''none'']))))
            ''none''"
  have eqd: "distinct eq" unfolding eq_def by (intro distinct_setAdd distinct_asLowerSet)
  have eqn: "\<forall>x \<in> set eq. normalizedText x"
    unfolding eq_def by (auto simp: set_setAdd normalizedText_none asLowerSet_normalized)
  have eqnone: "''none'' \<in> set eq" unfolding eq_def by (simp add: set_setAdd)
  have 1: "20 \<le> session_minutes p \<and> session_minutes p \<le> 120"
    by (simp add: p normalizedProfile_def Let_def)
  have 2: "normalizedList (equipment_available p) \<and> ''none'' \<in> set (equipment_available p)"
    using normalizedList_sorted [OF eqd eqn] eqnone
    by (simp add: p normalizedProfile_def Let_def obj_def [symmetric] eq_def [symmetric]
          sortedListFromSet_def)
  have 3: "normalizedList (avoid_patterns p) \<and> normalizedList (avoid_movements p)"
    by (simp add: p normalizedProfile_def Let_def normalizedList_sorted distinct_asLowerSet
          asLowerSet_normalized)
  define pm where "pm = sortedListFromSet (filter (\<lambda>md. md \<in> set VALID_MODALITIES)
      (asLowerSet (jsonStrings (jsOr (getProp obj ''preferred_modalities'') (JArr [])))))"
  have pmd: "distinct pm \<and> set pm \<subseteq> set VALID_MODALITIES"
    unfolding pm_def by (auto simp: sortedListFromSet_def distinct_asLowerSet)
  have pmp: "preferred_modalities p
      = (if length pm > 0 then pm
         else [''monostructural'', ''gymnastics'', ''weightlifting'', ''odd-object''])"
    by (simp add: p normalizedProfile_def Let_def obj_def [symmetric] pm_def [symmetric])
  have 4: "preferred_modalities p \<noteq> [] \<and> distinct (preferred_modalities p)
       \<and> set (preferred_modalities p) \<subseteq> set VALID_MODALITIES"
  proof (cases "length pm > 0")
    case True
    then show ?thesis using pmd by (auto simp: pmp)
  next
    case False
    then show ?thesis by (simp add: pmp VALID_MODALITIES_def)
  qed
  show ?thesis using 1 2 3 4 by (intro conjI) simp_all
qed

lemma mergeProfile_Inl: "mergeProfile rawProfile = Inl e \<Longrightarrow> e = TypeError"
  by (auto simp: mergeProfile_def Let_def split: option.splits)

lemma mergeProfile_returns_iff:
  "(\<exists>p. mergeProfile rawProfile = Inr p) \<longleftrightarrow>
     (let obj = fold (\<lambda>(key, v) acc. assign acc key v) rawProfile DEFAULT_PROFILE in
        ToString (jsOr (getProp obj ''fitness_level'') (JStr ''intermediate'')) \<noteq> None
      \<and> ToString (jsOr (getProp obj ''goal'') (JStr ''mixed'')) \<noteq> None
      \<and> ToString (jsOr (getProp obj ''intensity'') (JStr ''moderate'')) \<noteq> None
      \<and> ToStringU (getProp obj ''session_minutes'') \<noteq> None)"
  by (auto simp: mergeProfile_def Let_def bind_eq_Some_conv bind_eq_None_conv
        split: option.splits)

section \<open>The examples, evaluated\<close>

lemma mergeProfile_empty: "mergeProfile [] = Inr DEFAULT_NORMALIZED"
  by code_simp

text \<open>
  The weights of the score as doubles: \<^verbatim>\<open>1.3\<close> is \<^verbatim>\<open>0x1.4cccccccccccdp+0\<close> and
  \<^verbatim>\<open>0.4\<close> is \<^verbatim>\<open>0x1.999999999999ap-2\<close>; \<^verbatim>\<open>2.5\<close> and the whole numbers are exact.
  Between \<open>2 ^ 53\<close> and \<open>2 ^ 54\<close> the doubles are the even numbers, and a number half-way
  goes to the multiple of four.
\<close>

lemma double_literals:
  "double (13 / 10) = 5854679515581645 / 2 ^ 52
   \<and> double (4 / 10) = 7205759403792794 / 2 ^ 54
   \<and> double (25 / 10) = 5 / 2
   \<and> double 3 = 3
   \<and> double (2 ^ 53 + 1) = 2 ^ 53
   \<and> double (2 ^ 53 + 3) = 2 ^ 53 + 4"
  by code_simp

lemma example_plan:
  "buildPlan EXAMPLE_NOW DEFAULT_NORMALIZED [] EXAMPLE_LIBRARY 2 1 = Inr EXAMPLE_PLAN"
  by code_simp

lemma recovery_normal: "modality m = ''recovery'' \<Longrightarrow> normModality m = ''recovery''"
proof -
  have "toLowerCase (trim ''recovery'') = ''recovery''" by code_simp
  then show "modality m = ''recovery'' \<Longrightarrow> normModality m = ''recovery''"
    by (simp add: normModality_def)
qed

lemma rankCandidates_Nil_iff:
  "rankCandidates movements profile recentMovements patternCounter = []
     \<longleftrightarrow> list_all (\<lambda>m. \<not> canDoMovement m profile recentMovements) movements"
proof -
  have "rankCandidates movements profile recentMovements patternCounter = []
     \<longleftrightarrow> length (rankCandidates movements profile recentMovements patternCounter) = 0"
    by simp
  also have "\<dots> \<longleftrightarrow> filter (\<lambda>m. canDoMovement m profile recentMovements) movements = []"
    by (simp add: rankCandidates_def)
  also have "\<dots> \<longleftrightarrow> list_all (\<lambda>m. \<not> canDoMovement m profile recentMovements) movements"
    by (simp add: filter_empty_conv list_all_iff)
  finally show ?thesis .
qed

section \<open>Determinism\<close>

lemma todayOrdinalDay_example: "todayOrdinalDay EXAMPLE_NOW = 20000"
  by code_simp



text \<open>
  The date does matter: forty days later the dated sessions of the example history have
  left the window, and only the sessions without a usable date are counted.
\<close>

lemma recentContext_depends_on_date:
  "fst (recentContext EXAMPLE_NOW EXAMPLE_HISTORY (movementMap TAGGED_LIBRARY) 2)
     = [''deadlift'', ''plank'', ''clean'']
   \<and> fst (recentContext EXAMPLE_LATER EXAMPLE_HISTORY (movementMap TAGGED_LIBRARY) 2)
     = [''plank'', ''clean'']"
  by code_simp

text \<open>
  A returned plan carries the seed, the profile and the window it was built from.
\<close>

lemma buildPlan_echoes_inputs:
  assumes "buildPlan now profile history movements lookbackDays seed = Inr pl"
  shows "plan_seed pl = seed \<and> plan_profile pl = profile
       \<and> lookback_days (plan_context pl) = lookbackDays"
  using assms
  by (auto simp: buildPlan_def Let_def split: if_splits prod.splits sum.splits)

section \<open>No repeats within a session\<close>

text \<open>
  C2 says that no movement name occurs twice across the warm-up list, the strength/skill
  movement and the metcon list of a plan, the fallback names of the warm-up included. The
  script keeps the picked movements apart through the set of used names, but a fallback
  name is neither looked up in that set nor added to it. With the example library (no
  monostructural movement, one gymnastics movement named \<^verbatim>\<open>plank\<close>) the second warm-up
  pick is \<^verbatim>\<open>plank\<close>, the third finds nothing and falls back to the fixed name
  \<^verbatim>\<open>plank\<close>: the name is listed twice, and the scaling notes are written twice.
\<close>

theorem buildPlan_repeats_fallback_name:
  "buildPlan EXAMPLE_NOW DEFAULT_NORMALIZED [] EXAMPLE_LIBRARY 2 1 = Inr EXAMPLE_PLAN
   \<and> sessionNames EXAMPLE_PLAN = [''easy cardio'', ''plank'', ''plank'', ''deadlift'', ''clean'']
   \<and> \<not> distinct (sessionNames EXAMPLE_PLAN)"
proof -
  have n: "sessionNames EXAMPLE_PLAN = [''easy cardio'', ''plank'', ''plank'', ''deadlift'', ''clean'']"
    by (simp add: sessionNames_def EXAMPLE_PLAN_def)
  have "\<not> distinct (sessionNames EXAMPLE_PLAN)" unfolding n by simp
  then show ?thesis using example_plan n by (intro conjI)
qed

text \<open>
  What the set of used names does ensure: the names of a plan's three active blocks are
  those of up to three warm-up picks, each replaced by its fallback name when the pick
  found nothing, of the strength/skill pick if there is one, and of the metcon picks; the
  picks are library movements, and their names are pairwise different even after trimming
  and lower-casing. A repeat can only involve a fallback name.
\<close>

lemma buildPlan_picks_distinct:
  assumes "buildPlan now profile history movements lookbackDays seed = Inr pl"
  shows "\<exists>cyc base1 base2 str mts.
           sessionNames pl =
             [case cyc of Some m \<Rightarrow> name m | None \<Rightarrow> ''easy cardio'',
              case base1 of Some m \<Rightarrow> name m | None \<Rightarrow> ''air squat'',
              case base2 of Some m \<Rightarrow> name m | None \<Rightarrow> ''plank'']
             @ map name (picked str) @ map name mts
         \<and> distinct (map normName (picked cyc @ picked base1 @ picked base2 @ picked str @ mts))
         \<and> distinct (map name (picked cyc @ picked base1 @ picked base2 @ picked str @ mts))
         \<and> set (picked cyc @ picked base1 @ picked base2 @ picked str @ mts) \<subseteq> set movements"
proof -
  define ranked where "ranked = rankCandidates movements profile
        (fst (recentContext now history (movementMap movements) lookbackDays))
        (snd (recentContext now history (movementMap movements) lookbackDays))"
  define blocks where "blocks = sessionBlockLengths (session_minutes profile)"
  from assms obtain used1 st1 used2 st2 used3 st3 where
        w: "buildWarmup ranked [] (SeededRng seed) (len_warmup blocks) = (warmup pl, used1, st1)"
    and s: "buildStrengthOrSkillBlock ranked used1 st1 profile (len_strength blocks)
              = (strength_or_skill pl, used2, st2)"
    and m: "buildMetcon ranked used2 st2 profile (len_metcon blocks) = Inr (metcon pl, used3, st3)"
    unfolding ranked_def blocks_def by (rule buildPlan_Inr_blocks)
  have sub: "fst ` set ranked \<subseteq> set movements"
    unfolding ranked_def by (rule rankCandidates_subset)
  have c0: "usedCovers [] []" by (simp add: usedCovers_def)
  from buildWarmup_covers [OF w c0] obtain cyc base1 base2 where
        wn: "movement_names (warmup pl) =
             [case cyc of Some m \<Rightarrow> name m | None \<Rightarrow> ''easy cardio'',
              case base1 of Some m \<Rightarrow> name m | None \<Rightarrow> ''air squat'',
              case base2 of Some m \<Rightarrow> name m | None \<Rightarrow> ''plank'']"
    and c1: "usedCovers used1 (picked cyc @ picked base1 @ picked base2)"
    and r1: "set (picked cyc @ picked base1 @ picked base2) \<subseteq> fst ` set ranked"
    by auto
  from buildStrengthOrSkillBlock_covers [OF s c1] obtain str where
        sn: "(case strength_or_skill pl of Some b \<Rightarrow> [strength_movement b] | None \<Rightarrow> [])
              = map name (picked str)"
    and c2: "usedCovers used2 ((picked cyc @ picked base1 @ picked base2) @ picked str)"
    and r2: "set (picked str) \<subseteq> fst ` set ranked"
    by auto
  from buildMetcon_covers [OF m c2] obtain mts where
        mn: "metcon_movements (metcon pl) = map name mts"
    and c3: "usedCovers used3 (((picked cyc @ picked base1 @ picked base2) @ picked str) @ mts)"
    and r3: "set mts \<subseteq> fst ` set ranked"
    by auto
  let ?all = "picked cyc @ picked base1 @ picked base2 @ picked str @ mts"
  have names: "sessionNames pl =
             [case cyc of Some m \<Rightarrow> name m | None \<Rightarrow> ''easy cardio'',
              case base1 of Some m \<Rightarrow> name m | None \<Rightarrow> ''air squat'',
              case base2 of Some m \<Rightarrow> name m | None \<Rightarrow> ''plank'']
             @ map name (picked str) @ map name mts"
    by (simp add: sessionNames_def wn sn mn)
  have d: "distinct (map normName ?all)" using c3 by (simp add: usedCovers_def)
  have i: "inj_on normName (set ?all)" using d by (simp only: distinct_map)
  have "inj_on name (set ?all)"
  proof (rule inj_onI)
    fix x y assume x: "x \<in> set ?all" and y: "y \<in> set ?all" and e: "name x = name y"
    from e have n: "normName x = normName y" by (simp add: normName_def)
    show "x = y" by (rule inj_onD [OF i n x y])
  qed
  moreover have "distinct ?all" using d by (simp only: distinct_map)
  ultimately have dn: "distinct (map name ?all)" by (simp only: distinct_map)
  have inl: "set ?all \<subseteq> set movements" using r1 r2 r3 sub by auto
  show ?thesis using names d dn inl by blast
qed

section \<open>Eligibility\<close>

text \<open>
  C3 says of every ranked movement that its difficulty rank is at most the profile's level
  rank (one more when the goal is skill), beside the equipment and limitation gates. The
  difficulty gate looks the label up in \<^verbatim>\<open>LEVEL_RANK\<close> with a bare index, where
  \<^verbatim>\<open>mergeProfile\<close> guards the same table with \<^verbatim>\<open>hasOwnProperty\<close>. A movement labelled
  \<^verbatim>\<open>constructor\<close> gets the inherited function instead of the default rank 1 of an unknown
  label; the comparison with the level rank is then false and the movement is ranked for
  a beginner (rank 0), with a score of 2.0 for its preferred modality.
\<close>

theorem rankCandidates_keeps_inherited_label:
  "movementLevel INHERITED_LABEL = NotARank
   \<and> LEVEL_RANK (fitness_level BEGINNER_PROFILE) = 0
   \<and> rankCandidates [INHERITED_LABEL] BEGINNER_PROFILE [] [] = [(INHERITED_LABEL, 2)]"
  by code_simp

text \<open>
  What the gates do ensure for every ranked movement: it is a library movement with its
  score; each piece of equipment it needs, beside \<^verbatim>\<open>none\<close> and \<^verbatim>\<open>bodyweight\<close>, is
  available; its name is not to be avoided and none of its patterns is; with the goal
  skill it is not among the recent movements; and its difficulty rank, when its label has
  one, is at most the level rank, plus one with the goal skill. For a normalized profile
  the lower-cased name is not to be avoided either, trimmed or not.
\<close>

lemma rankCandidates_eligible:
  assumes "(m, sc) \<in> set (rankCandidates movements profile recentMovements patternCounter)"
  shows "m \<in> set movements
       \<and> sc = scoreMovement m profile recentMovements patternCounter
       \<and> canDoMovement m profile recentMovements
       \<and> (\<forall>item \<in> set (asLowerSet (equipment m)).
             item = ''none'' \<or> item = ''bodyweight''
           \<or> item \<in> set (asLowerSet (equipment_available profile)))
       \<and> normName m \<notin> set (avoid_movements profile)
       \<and> set (asLowerSet (patterns m)) \<inter> set (avoid_patterns profile) = {}
       \<and> (goal profile = Skill \<longrightarrow> normName m \<notin> set recentMovements)
       \<and> (\<forall>r. movementLevel m = Rank r \<longrightarrow>
             r \<le> LEVEL_RANK (fitness_level profile) + (if goal profile = Skill then 1 else 0))"
proof -
  have in_ms: "m \<in> set movements"
    and sc: "sc = scoreMovement m profile recentMovements patternCounter"
    and can: "canDoMovement m profile recentMovements"
    using assms by (auto simp: rankCandidates_def)
  have lvl: "\<not> rankGreater (movementLevel m)
        (LEVEL_RANK (fitness_level profile) + (if goal profile = Skill then 1 else 0))"
    using can by (auto simp: canDoMovement_def Let_def split: if_splits)
  have eq: "\<not> list_ex (\<lambda>item. item \<notin> set (asLowerSet (equipment_available profile)))
        (filter (\<lambda>item. item \<notin> set [''none'', ''bodyweight'']) (asLowerSet (equipment m)))"
    using can by (auto simp: canDoMovement_def Let_def split: if_splits)
  have nm: "normName m \<notin> set (avoid_movements profile)"
    using can by (auto simp: canDoMovement_def Let_def split: if_splits)
  have pt: "\<not> list_ex (\<lambda>pattern. pattern \<in> set (avoid_patterns profile)) (asLowerSet (patterns m))"
    using can by (auto simp: canDoMovement_def Let_def split: if_splits)
  have sk: "goal profile = Skill \<longrightarrow> normName m \<notin> set recentMovements"
    using can by (auto simp: canDoMovement_def Let_def split: if_splits)
  have r: "\<forall>r. movementLevel m = Rank r \<longrightarrow>
             r \<le> LEVEL_RANK (fitness_level profile) + (if goal profile = Skill then 1 else 0)"
    using lvl by (cases "movementLevel m") auto
  have e: "\<forall>item \<in> set (asLowerSet (equipment m)).
             item = ''none'' \<or> item = ''bodyweight''
           \<or> item \<in> set (asLowerSet (equipment_available profile))"
    using eq by (auto simp: list_ex_iff)
  have p: "set (asLowerSet (patterns m)) \<inter> set (avoid_patterns profile) = {}"
    using pt by (auto simp: list_ex_iff)
  show ?thesis using in_ms sc can e nm p sk r by (intro conjI)
qed

lemma rankCandidates_lower_cased_name:
  assumes "mergeProfile rawProfile = Inr profile"
      and "(m, sc) \<in> set (rankCandidates movements profile recentMovements patternCounter)"
  shows "toLowerCase (name m) \<notin> set (avoid_movements profile)
       \<and> set (asLowerSet (equipment_available profile)) = set (equipment_available profile)"
proof -
  have nl: "normalizedList (avoid_movements profile)"
    and el: "normalizedList (equipment_available profile)"
    using mergeProfile_normalized [OF assms(1)] by simp_all
  have nm: "normName m \<notin> set (avoid_movements profile)"
    using rankCandidates_eligible [OF assms(2)] by simp
  have "toLowerCase (name m) \<notin> set (avoid_movements profile)"
  proof
    assume a: "toLowerCase (name m) \<in> set (avoid_movements profile)"
    then have "normalizedText (toLowerCase (name m))"
      using nl by (simp add: normalizedList_def list_all_iff)
    then have "trim (toLowerCase (name m)) = toLowerCase (name m)"
      by (simp add: normalizedText_def)
    then have "normName m = toLowerCase (name m)"
      by (simp add: normName_def trim_toLowerCase)
    with a nm show False by simp
  qed
  moreover have "set (asLowerSet (equipment_available profile)) = set (equipment_available profile)"
    using el by (intro asLowerSet_fixed) (simp_all add: normalizedList_def)
  ultimately show ?thesis by simp
qed

section \<open>Failure of a run\<close>

text \<open>
  C4: when no movement of the library is eligible under the profile, the plan builder fails
  with the message that tells the caller to relax the constraints, and returns no plan. It
  fails in one other way only, when no movement is left for the metcon. Every run that does
  not fail returns a plan with all its blocks: a warm-up with three names and two lines, a
  metcon with at least one movement, a cooldown with three names and three lines, each with
  the minutes of the block table, and the strength/skill block, when there is one, with
  its minutes.
\<close>

theorem buildPlan_fails_or_complete:
  "(list_all (\<lambda>m. \<not> canDoMovement m profile
                 (fst (recentContext now history (movementMap movements) lookbackDays)))
       movements
     \<longrightarrow> buildPlan now profile history movements lookbackDays seed
           = Inl (Error ''No movements match the current equipment/level/limitations. Relax constraints and retry.''))
   \<and> (\<forall>e. buildPlan now profile history movements lookbackDays seed = Inl e \<longrightarrow>
          e = Error ''No movements match the current equipment/level/limitations. Relax constraints and retry.''
        \<or> e = Error ''No eligible movements remain for metcon after constraints.'')
   \<and> (\<forall>pl. buildPlan now profile history movements lookbackDays seed = Inr pl \<longrightarrow>
          duration_min (warmup pl) = len_warmup (sessionBlockLengths (session_minutes profile))
        \<and> length (movement_names (warmup pl)) = 3 \<and> length (items (warmup pl)) = 2
        \<and> (\<forall>b. strength_or_skill pl = Some b \<longrightarrow>
               strength_duration_min b = len_strength (sessionBlockLengths (session_minutes profile)))
        \<and> metcon_duration_min (metcon pl) = len_metcon (sessionBlockLengths (session_minutes profile))
        \<and> metcon_movements (metcon pl) \<noteq> []
        \<and> duration_min (cooldown pl) = len_cooldown (sessionBlockLengths (session_minutes profile))
        \<and> length (movement_names (cooldown pl)) = 3 \<and> length (items (cooldown pl)) = 3
        \<and> plan_profile pl = profile \<and> plan_seed pl = seed)"
proof (intro conjI allI impI)
  assume "list_all (\<lambda>m. \<not> canDoMovement m profile
                 (fst (recentContext now history (movementMap movements) lookbackDays)))
       movements"
  then have "rankCandidates movements profile
        (fst (recentContext now history (movementMap movements) lookbackDays))
        (snd (recentContext now history (movementMap movements) lookbackDays)) = []"
    by (simp add: rankCandidates_Nil_iff)
  then show "buildPlan now profile history movements lookbackDays seed
           = Inl (Error ''No movements match the current equipment/level/limitations. Relax constraints and retry.'')"
    by (simp add: buildPlan_def Let_def)
next
  fix e assume "buildPlan now profile history movements lookbackDays seed = Inl e"
  then show "e = Error ''No movements match the current equipment/level/limitations. Relax constraints and retry.''
        \<or> e = Error ''No eligible movements remain for metcon after constraints.''"
    by (rule buildPlan_Inl)
next
  fix pl assume a: "buildPlan now profile history movements lookbackDays seed = Inr pl"
  define ranked where "ranked = rankCandidates movements profile
        (fst (recentContext now history (movementMap movements) lookbackDays))
        (snd (recentContext now history (movementMap movements) lookbackDays))"
  define blocks where "blocks = sessionBlockLengths (session_minutes profile)"
  from a obtain used1 st1 used2 st2 used3 st3 st4 where
        w: "buildWarmup ranked [] (SeededRng seed) (len_warmup blocks) = (warmup pl, used1, st1)"
    and s: "buildStrengthOrSkillBlock ranked used1 st1 profile (len_strength blocks)
              = (strength_or_skill pl, used2, st2)"
    and m: "buildMetcon ranked used2 st2 profile (len_metcon blocks) = Inr (metcon pl, used3, st3)"
    and c: "buildCooldown movements st3 (len_cooldown blocks) = (cooldown pl, st4)"
    and p: "plan_profile pl = profile" "plan_seed pl = seed"
    unfolding ranked_def blocks_def by (rule buildPlan_Inr_blocks)
  note W = buildWarmup_shape [OF w] and M = buildMetcon_Inr [OF m] and C = buildCooldown_shape [OF c]
  show "duration_min (warmup pl) = len_warmup (sessionBlockLengths (session_minutes profile))"
    using W by (simp add: blocks_def)
  show "length (movement_names (warmup pl)) = 3" using W by simp
  show "length (items (warmup pl)) = 2" using W by simp
  show "metcon_duration_min (metcon pl) = len_metcon (sessionBlockLengths (session_minutes profile))"
    using M by (simp add: blocks_def)
  show "metcon_movements (metcon pl) \<noteq> []" using M by simp
  show "duration_min (cooldown pl) = len_cooldown (sessionBlockLengths (session_minutes profile))"
    using C by (simp add: blocks_def)
  show "length (movement_names (cooldown pl)) = 3" using C by simp
  show "length (items (cooldown pl)) = 3" using C by simp
  show "plan_profile pl = profile" by (rule p(1))
  show "plan_seed pl = seed" by (rule p(2))
  fix b assume "strength_or_skill pl = Some b"
  with s have "buildStrengthOrSkillBlock ranked used1 st1 profile (len_strength blocks)
              = (Some b, used2, st2)" by simp
  from buildStrengthOrSkillBlock_Some [OF this]
  show "strength_duration_min b = len_strength (sessionBlockLengths (session_minutes profile))"
    by (auto simp: blocks_def)
qed

theorem buildPlan_fails_or_complete_witness:
  "list_all (\<lambda>m. \<not> canDoMovement m BEGINNER_PROFILE
        (fst (recentContext EXAMPLE_NOW [] (movementMap ADVANCED_ONLY) 2))) ADVANCED_ONLY
   \<and> buildPlan EXAMPLE_NOW BEGINNER_PROFILE [] ADVANCED_ONLY 2 1
       = Inl (Error ''No movements match the current equipment/level/limitations. Relax constraints and retry.'')
   \<and> buildPlan EXAMPLE_NOW DEFAULT_NORMALIZED [] EXAMPLE_LIBRARY 2 1 = Inr EXAMPLE_PLAN
   \<and> metcon_movements (metcon EXAMPLE_PLAN) \<noteq> []
   \<and> duration_min (warmup EXAMPLE_PLAN)
       = len_warmup (sessionBlockLengths (session_minutes DEFAULT_NORMALIZED))"
proof -
  have h: "list_all (\<lambda>m. \<not> canDoMovement m BEGINNER_PROFILE
        (fst (recentContext EXAMPLE_NOW [] (movementMap ADVANCED_ONLY) 2))) ADVANCED_ONLY"
    by code_simp
  have 1: "buildPlan EXAMPLE_NOW BEGINNER_PROFILE [] ADVANCED_ONLY 2 1
       = Inl (Error ''No movements match the current equipment/level/limitations. Relax constraints and retry.'')"
    using buildPlan_fails_or_complete [of BEGINNER_PROFILE EXAMPLE_NOW "[]" ADVANCED_ONLY 2 1] h
    by (rule conjunct1 [THEN mp])
  have 2: "metcon_movements (metcon EXAMPLE_PLAN) \<noteq> []
     \<and> duration_min (warmup EXAMPLE_PLAN)
         = len_warmup (sessionBlockLengths (session_minutes DEFAULT_NORMALIZED))"
    using buildPlan_fails_or_complete [of DEFAULT_NORMALIZED EXAMPLE_NOW "[]" EXAMPLE_LIBRARY 2 1]
      example_plan by simp
  show ?thesis using h 1 2 example_plan by (intro conjI) simp_all
qed

section \<open>Ranking order\<close>

text \<open>
  C5: the ranked candidate list is sorted by score, highest first, and candidates of equal
  score keep the order they have in the library: for every score, the candidates of that
  score are, in order, the eligible library movements of that score.
\<close>

theorem rankCandidates_sorted_stable:
  "sorted_wrt (\<lambda>a b. snd a \<ge> snd b)
      (rankCandidates movements profile recentMovements patternCounter)
   \<and> filter (\<lambda>entry. snd entry = s)
        (rankCandidates movements profile recentMovements patternCounter)
     = filter (\<lambda>entry. snd entry = s)
         (map (\<lambda>movement. (movement, scoreMovement movement profile recentMovements patternCounter))
            (filter (\<lambda>movement. canDoMovement movement profile recentMovements) movements))"
proof -
  let ?xs = "map (\<lambda>movement. (movement, scoreMovement movement profile recentMovements patternCounter))
            (filter (\<lambda>movement. canDoMovement movement profile recentMovements) movements)"
  let ?key = "\<lambda>entry :: movement \<times> rat. - snd entry"
  have r: "rankCandidates movements profile recentMovements patternCounter = sort_key ?key ?xs"
    by (simp add: rankCandidates_def)
  have "sorted (map ?key (sort_key ?key ?xs))" by (rule sorted_sort_key)
  then have s1: "sorted_wrt (\<lambda>a b. snd a \<ge> snd b) (sort_key ?key ?xs)"
    by (simp add: sorted_map sorted_wrt_map)
  have "filter (\<lambda>y. ?key y = - s) (sort_key ?key ?xs) = filter (\<lambda>y. ?key y = - s) ?xs"
    by (rule sort_key_stable)
  then have s2: "filter (\<lambda>entry. snd entry = s) (sort_key ?key ?xs)
                 = filter (\<lambda>entry. snd entry = s) ?xs"
    by simp
  show ?thesis unfolding r using s1 s2 by blast
qed

text \<open>
  Scores that differ in the last bit are not a tie: with the example counts the script
  scores the hollow hold \<^verbatim>\<open>-1.5000000000000004\<close> and the lunge \<^verbatim>\<open>-1.5\<close>, and ranks
  the lunge first although the library lists it second.
\<close>

lemma rankCandidates_last_bit:
  "scoreMovement HOLLOW_HOLD DEFAULT_NORMALIZED [] EXAMPLE_COUNTER
     = - 3377699720527873 / 2 ^ 51
   \<and> scoreMovement LUNGE DEFAULT_NORMALIZED [] EXAMPLE_COUNTER = - 3 / 2
   \<and> map fst (rankCandidates [HOLLOW_HOLD, LUNGE] DEFAULT_NORMALIZED [] EXAMPLE_COUNTER)
     = [LUNGE, HOLLOW_HOLD]"
  by code_simp

section \<open>The fatigue analyzer\<close>














section \<open>The EMOM minute count\<close>

text \<open>
  C7, as stated: the EMOM minute count is a multiple of the station count, at least four
  times the station count and at least the block's target minutes. The last part fails:
  with four stations and a 30 minute block the count is 28.
\<close>

theorem emomMinutes_below_target_counterexample:
  "\<not> (4 dvd emomMinutes 4 30 \<and> 4 * 4 \<le> emomMinutes 4 30 \<and> 30 \<le> emomMinutes 4 30)"
  by (simp add: emomMinutes_def)

text \<open>
  C7, amended: for a station count \<open>s \<ge> 1\<close> and target minutes \<open>m\<close> the EMOM minute
  count is the largest multiple of \<open>s\<close> not above \<open>max (4 * s) m\<close>: a multiple of
  \<open>s\<close>, at least \<open>4 * s\<close>, at most \<open>max (4 * s) m\<close>, and more than \<open>m - s\<close>
  (so it is at least \<open>m\<close> exactly when it is not rounded down below it).
\<close>

theorem emomMinutes_multiple:
  assumes "1 \<le> s"
  shows "s dvd emomMinutes s m \<and> 4 * s \<le> emomMinutes s m
       \<and> emomMinutes s m \<le> max (4 * s) m \<and> m < emomMinutes s m + s"
proof -
  define k where "k = max (s * 4) m"
  have e: "emomMinutes s m = k - k mod s"
    by (simp add: emomMinutes_def k_def Let_def)
  have pos: "0 < s" using assms by simp
  have d: "s dvd k - k mod s"
    by (simp add: dvd_minus_mod)
  have lt: "k mod s < s" using pos by simp
  have le: "k mod s \<le> k" by (rule mod_less_eq_dividend)
  have ks: "s * 4 \<le> k" by (simp add: k_def)
  have "(s * 4) div s \<le> k div s" using ks by (rule div_le_mono)
  then have "4 \<le> k div s" using pos by simp
  then have "4 * s \<le> k div s * s" by (rule mult_le_mono1)
  also have "\<dots> = k - k mod s" by (simp add: minus_mod_eq_div_mult)
  finally have lo: "4 * s \<le> k - k mod s" .
  have hi: "k - k mod s \<le> max (4 * s) m" by (simp add: k_def mult.commute)
  have "m \<le> k" by (simp add: k_def)
  then have gt: "m < (k - k mod s) + s" using lt le by linarith
  show ?thesis using d lo hi gt by (simp add: e)
qed

theorem emomMinutes_multiple_witness:
  "(1::nat) \<le> 4 \<and> 4 dvd emomMinutes 4 30 \<and> 4 * 4 \<le> emomMinutes 4 30
     \<and> emomMinutes 4 30 \<le> max (4 * 4) 30 \<and> 30 < emomMinutes 4 30 + 4
     \<and> emomMinutes 4 30 = 28"
  using emomMinutes_multiple [of 4 30] by (simp add: emomMinutes_def)

section \<open>The normalizer\<close>

text \<open>
  C8 says, beside the shape of the normalized profile, that the normalizer never fails on a
  record. It coerces four raw values with \<^verbatim>\<open>String(...)\<close> and \<^verbatim>\<open>parseInt\<close>, and the
  coercion throws \<^verbatim>\<open>TypeError\<close> for an object with a key \<^verbatim>\<open>toString\<close> of its own: the
  record \<^verbatim>\<open>{"goal": {"toString": 1}}\<close> makes the normalizer fail.
\<close>

theorem mergeProfile_throws_on_unprintable:
  "mergeProfile [(''goal'', JObj [(''toString'', JNum 1)])] = Inl TypeError"
  by code_simp

text \<open>
  The only failure of the normalizer is this \<^verbatim>\<open>TypeError\<close>, and it returns exactly when
  the four coerced values can be printed (\<open>mergeProfile_Inl\<close>,
  \<open>mergeProfile_returns_iff\<close>). A profile it returns has its session minutes between 20
  and 120, sorted lists without duplicates of trimmed, lower-case, non-empty texts for the
  equipment (with \<^verbatim>\<open>none\<close>) and the two limitations, and a non-empty list of valid
  modalities (\<open>mergeProfile_normalized\<close>). An enumerated field holds the member that
  the raw value names once coerced to text, trimmed and lower-cased, and the default when
  it names none:
\<close>

lemma normalizedProfile_enums:
  "goal (normalizedProfile obj levelText goalText intensityText minutesText)
     = (case named goal_name GOALS (toLowerCase (trim goalText)) of
          Some g \<Rightarrow> g | None \<Rightarrow> Mixed)
   \<and> fitness_level (normalizedProfile obj levelText goalText intensityText minutesText)
     = (case named level_name LEVELS (toLowerCase (trim levelText)) of
          Some l \<Rightarrow> l | None \<Rightarrow> Intermediate)
   \<and> intensity (normalizedProfile obj levelText goalText intensityText minutesText)
     = (case named intensity_name INTENSITIES (toLowerCase (trim intensityText)) of
          Some i \<Rightarrow> i | None \<Rightarrow> Moderate)
   \<and> wod_type (normalizedProfile obj levelText goalText intensityText minutesText)
     = (case getProp obj ''wod_type'' of
          Some (JStr s) \<Rightarrow> named wod_name WOD_TYPES (toLowerCase (trim s))
        | _ \<Rightarrow> None)
   \<and> session_minutes (normalizedProfile obj levelText goalText intensityText minutesText)
     = max 20 (min 120 (case parseInt minutesText of Some n \<Rightarrow> n | None \<Rightarrow> 45))"
  by (simp add: normalizedProfile_def Let_def)

section \<open>Recovery movements\<close>

text \<open>
  C9: no recovery movement appears in the strength/skill block or in the metcon list of a
  plan. Every name in these blocks is the name of a library movement that \<^verbatim>\<open>pickBest\<close>
  chose with recovery excluded, so its modality, trimmed and lower-cased, is not
  \<^verbatim>\<open>recovery\<close>; and when the names of the library are distinct, the name of a movement of
  modality \<^verbatim>\<open>recovery\<close> is in neither block.
\<close>

theorem no_recovery_in_active_blocks:
  assumes "buildPlan now profile history movements lookbackDays seed = Inr pl"
  shows "(\<forall>n \<in> set (metcon_movements (metcon pl)).
            \<exists>m \<in> set movements. name m = n \<and> normModality m \<noteq> ''recovery''
                                \<and> modality m \<noteq> ''recovery'')
       \<and> (\<forall>b. strength_or_skill pl = Some b \<longrightarrow>
            (\<exists>m \<in> set movements. name m = strength_movement b \<and> normModality m \<noteq> ''recovery''
                                \<and> modality m \<noteq> ''recovery''))
       \<and> (distinct (map name movements) \<longrightarrow>
            (\<forall>m \<in> set movements. modality m = ''recovery'' \<longrightarrow>
               name m \<notin> set (metcon_movements (metcon pl))
             \<and> (\<forall>b. strength_or_skill pl = Some b \<longrightarrow> strength_movement b \<noteq> name m)))"
proof -
  define ranked where "ranked = rankCandidates movements profile
        (fst (recentContext now history (movementMap movements) lookbackDays))
        (snd (recentContext now history (movementMap movements) lookbackDays))"
  define blocks where "blocks = sessionBlockLengths (session_minutes profile)"
  from assms obtain used1 st1 used2 st2 used3 st3 where
        s: "buildStrengthOrSkillBlock ranked used1 st1 profile (len_strength blocks)
              = (strength_or_skill pl, used2, st2)"
    and m: "buildMetcon ranked used2 st2 profile (len_metcon blocks) = Inr (metcon pl, used3, st3)"
    unfolding ranked_def blocks_def by (rule buildPlan_Inr_blocks)
  have sub: "fst ` set ranked \<subseteq> set movements"
    unfolding ranked_def by (rule rankCandidates_subset)
  have A: "\<exists>m \<in> set movements. name m = n \<and> normModality m \<noteq> ''recovery''
                                \<and> modality m \<noteq> ''recovery''"
    if "n \<in> set (metcon_movements (metcon pl))" for n
  proof -
    from buildMetcon_Inr [OF m] that
    obtain m0 where m0: "m0 \<in> fst ` set ranked" "normModality m0 \<noteq> ''recovery''" "name m0 = n"
      by blast
    have "m0 \<in> set movements" using sub m0(1) by (rule subsetD)
    moreover have "modality m0 \<noteq> ''recovery''" using m0(2) recovery_normal [of m0] by blast
    ultimately show ?thesis using m0(2,3) by (intro bexI [of _ m0]) simp_all
  qed
  have B: "\<exists>m \<in> set movements. name m = strength_movement b \<and> normModality m \<noteq> ''recovery''
                                \<and> modality m \<noteq> ''recovery''"
    if "strength_or_skill pl = Some b" for b
  proof -
    from s that have "buildStrengthOrSkillBlock ranked used1 st1 profile (len_strength blocks)
              = (Some b, used2, st2)" by simp
    from buildStrengthOrSkillBlock_Some [OF this]
    obtain m0 where m0: "m0 \<in> fst ` set ranked" "normModality m0 \<noteq> ''recovery''"
        "strength_movement b = name m0"
      by blast
    have "m0 \<in> set movements" using sub m0(1) by (rule subsetD)
    moreover have "modality m0 \<noteq> ''recovery''" using m0(2) recovery_normal [of m0] by blast
    ultimately show ?thesis using m0(2,3) by (intro bexI [of _ m0]) simp_all
  qed
  have C: "name m \<notin> set (metcon_movements (metcon pl))
             \<and> (\<forall>b. strength_or_skill pl = Some b \<longrightarrow> strength_movement b \<noteq> name m)"
    if d: "distinct (map name movements)" and mm: "m \<in> set movements"
      and r: "modality m = ''recovery''" for m
  proof -
    have inj: "inj_on name (set movements)" using d by (simp add: distinct_map)
    have uniq: "m' = m" if "m' \<in> set movements" "name m' = name m" for m'
      using inj mm that by (auto dest: inj_onD)
    have 1: "name m \<notin> set (metcon_movements (metcon pl))"
    proof
      assume "name m \<in> set (metcon_movements (metcon pl))"
      from A [OF this] obtain m0 where "m0 \<in> set movements" "name m0 = name m"
        "modality m0 \<noteq> ''recovery''" by blast
      with uniq [of m0] r show False by simp
    qed
    have 2: "strength_movement b \<noteq> name m" if "strength_or_skill pl = Some b" for b
    proof
      assume e: "strength_movement b = name m"
      from B [OF that] obtain m0 where "m0 \<in> set movements" "name m0 = strength_movement b"
        "modality m0 \<noteq> ''recovery''" by blast
      with uniq [of m0] r e show False by simp
    qed
    show ?thesis using 1 2 by blast
  qed
  show ?thesis using A B C by (intro conjI ballI allI impI) blast+
qed

theorem no_recovery_in_active_blocks_witness:
  "buildPlan EXAMPLE_NOW DEFAULT_NORMALIZED [] EXAMPLE_LIBRARY 2 1 = Inr EXAMPLE_PLAN
   \<and> (\<exists>m \<in> set EXAMPLE_LIBRARY. name m = ''clean'' \<and> normModality m \<noteq> ''recovery'' \<and> modality m \<noteq> ''recovery'')
   \<and> (\<exists>m \<in> set EXAMPLE_LIBRARY. name m = ''deadlift'' \<and> normModality m \<noteq> ''recovery'' \<and> modality m \<noteq> ''recovery'')
   \<and> distinct (map name EXAMPLE_LIBRARY)"
proof -
  note t = no_recovery_in_active_blocks [OF example_plan]
  have d: "distinct (map name EXAMPLE_LIBRARY)" by (simp add: EXAMPLE_LIBRARY_def)
  have m: "''clean'' \<in> set (metcon_movements (metcon EXAMPLE_PLAN))"
    by (simp add: EXAMPLE_PLAN_def)
  have s: "strength_or_skill EXAMPLE_PLAN =
      Some \<lparr>focus = ''strength'', strength_duration_min = 10,
              strength_movement = ''deadlift'',
              prescription = ''deadlift: 5 x 3 @ challenging load (RPE 8), rest 2 min''\<rparr>"
    by (simp add: EXAMPLE_PLAN_def)
  from t have "\<forall>n \<in> set (metcon_movements (metcon EXAMPLE_PLAN)).
            \<exists>m \<in> set EXAMPLE_LIBRARY. name m = n \<and> normModality m \<noteq> ''recovery''
                                \<and> modality m \<noteq> ''recovery''"
    by (rule conjunct1)
  from bspec [OF this m]
  have 1: "\<exists>m \<in> set EXAMPLE_LIBRARY. name m = ''clean'' \<and> normModality m \<noteq> ''recovery'' \<and> modality m \<noteq> ''recovery''" .
  from t have "\<forall>b. strength_or_skill EXAMPLE_PLAN = Some b \<longrightarrow>
            (\<exists>m \<in> set EXAMPLE_LIBRARY. name m = strength_movement b \<and> normModality m \<noteq> ''recovery''
                                \<and> modality m \<noteq> ''recovery'')"
    by (rule conjunct1 [OF conjunct2])
  from this [rule_format, OF s]
  have 2: "\<exists>m \<in> set EXAMPLE_LIBRARY. name m = ''deadlift'' \<and> normModality m \<noteq> ''recovery'' \<and> modality m \<noteq> ''recovery''"
    by simp
  show ?thesis using example_plan d 1 2 by (intro conjI)
qed

section \<open>Keys outside the profile schema\<close>




end
